theory Spec2Isabelle
  imports Complex_Main "HOL-Library.Word" "HOL-Library.Monad_Syntax"
begin

unbundle bit_operations_syntax

section \<open>Vectors and matrices\<close>

text \<open>
  The program (\<^verbatim>\<open>main.cpp\<close>) computes with single-precision \<^verbatim>\<open>float\<close>s through the GLM
  library. Floats are idealised as real numbers: rounding and overflow are left out.
  What is kept of IEEE arithmetic is division by zero: it yields an infinity or a NaN,
  which then spreads through every later operation. A value that holds such a
  non-finite component is \<open>None\<close> in this model.

  \<^verbatim>\<open>glm::vec3\<close>, \<^verbatim>\<open>glm::vec4\<close> and \<^verbatim>\<open>glm::mat4\<close> are datatypes of their components. A
  \<^verbatim>\<open>mat4\<close> is stored by columns, as in GLM: \<^verbatim>\<open>m[i]\<close> is the column \<open>i\<close> and \<^verbatim>\<open>m[i][j]\<close> its
  row \<open>j\<close>.
\<close>

datatype vec2 = Vec2 (x2: real) (y2: real)

datatype vec3 = Vec3 (x3: real) (y3: real) (z3: real)

datatype vec4 = Vec4 (x4: real) (y4: real) (z4: real) (w4: real)

datatype mat4 = Mat4 (col0: vec4) (col1: vec4) (col2: vec4) (col3: vec4)

text \<open>\<^verbatim>\<open>a + b\<close>, \<^verbatim>\<open>a - b\<close> and \<^verbatim>\<open>v * s\<close> on \<^verbatim>\<open>vec3\<close>.\<close>

fun add3 :: "vec3 \<Rightarrow> vec3 \<Rightarrow> vec3" where
  "add3 (Vec3 a b c) (Vec3 d e f) = Vec3 (a + d) (b + e) (c + f)"

fun sub3 :: "vec3 \<Rightarrow> vec3 \<Rightarrow> vec3" where
  "sub3 (Vec3 a b c) (Vec3 d e f) = Vec3 (a - d) (b - e) (c - f)"

fun smul3 :: "vec3 \<Rightarrow> real \<Rightarrow> vec3" where
  "smul3 (Vec3 a b c) s = Vec3 (a * s) (b * s) (c * s)"

text \<open>\<^verbatim>\<open>glm::dot\<close> and \<^verbatim>\<open>glm::cross\<close> on \<^verbatim>\<open>vec3\<close>.\<close>

fun dot :: "vec3 \<Rightarrow> vec3 \<Rightarrow> real" where
  "dot (Vec3 a b c) (Vec3 d e f) = a * d + b * e + c * f"

fun cross :: "vec3 \<Rightarrow> vec3 \<Rightarrow> vec3" where
  "cross (Vec3 a b c) (Vec3 d e f) = Vec3 (b * f - e * c) (c * d - f * a) (a * e - d * b)"

text \<open>
  \<^verbatim>\<open>glm::normalize(v)\<close> is \<^verbatim>\<open>v * inversesqrt(dot(v, v))\<close>. On the zero vector the inverse
  square root is infinite and the product is NaN in every component.
\<close>

definition normalize :: "vec3 \<Rightarrow> vec3 option" where
  "normalize v = (if dot v v = 0 then None else Some (smul3 v (1 / sqrt (dot v v))))"

text \<open>Float division; \<open>None\<close> is the infinity or NaN a zero divisor gives.\<close>

definition fdiv :: "real \<Rightarrow> real \<Rightarrow> real option" where
  "fdiv a b = (if b = 0 then None else Some (a / b))"

text \<open>The constructors \<^verbatim>\<open>vec4(v, w)\<close> and \<^verbatim>\<open>vec3(v4)\<close> (which drops \<^verbatim>\<open>w\<close>).\<close>

fun vec4_of :: "vec3 \<Rightarrow> real \<Rightarrow> vec4" where
  "vec4_of (Vec3 a b c) w = Vec4 a b c w"

fun vec3_of :: "vec4 \<Rightarrow> vec3" where
  "vec3_of (Vec4 a b c w) = Vec3 a b c"

fun add4 :: "vec4 \<Rightarrow> vec4 \<Rightarrow> vec4" where
  "add4 (Vec4 a b c d) (Vec4 e f g h) = Vec4 (a + e) (b + f) (c + g) (d + h)"

fun smul4 :: "vec4 \<Rightarrow> real \<Rightarrow> vec4" where
  "smul4 (Vec4 a b c d) s = Vec4 (a * s) (b * s) (c * s) (d * s)"

text \<open>\<^verbatim>\<open>mat4(1.0f)\<close>, the identity; \<^verbatim>\<open>m * v\<close>; \<^verbatim>\<open>m1 * m2\<close>; \<^verbatim>\<open>glm::transpose\<close>.\<close>

definition mat4_1 :: mat4 where
  "mat4_1 = Mat4 (Vec4 1 0 0 0) (Vec4 0 1 0 0) (Vec4 0 0 1 0) (Vec4 0 0 0 1)"

fun mulv :: "mat4 \<Rightarrow> vec4 \<Rightarrow> vec4" where
  "mulv (Mat4 c0 c1 c2 c3) (Vec4 a b c d) =
     add4 (add4 (add4 (smul4 c0 a) (smul4 c1 b)) (smul4 c2 c)) (smul4 c3 d)"

fun mat_mul :: "mat4 \<Rightarrow> mat4 \<Rightarrow> mat4" where
  "mat_mul m (Mat4 c0 c1 c2 c3) = Mat4 (mulv m c0) (mulv m c1) (mulv m c2) (mulv m c3)"

fun transpose4 :: "mat4 \<Rightarrow> mat4" where
  "transpose4 (Mat4 (Vec4 a0 a1 a2 a3) (Vec4 b0 b1 b2 b3) (Vec4 c0 c1 c2 c3) (Vec4 d0 d1 d2 d3)) =
     Mat4 (Vec4 a0 b0 c0 d0) (Vec4 a1 b1 c1 d1) (Vec4 a2 b2 c2 d2) (Vec4 a3 b3 c3 d3)"

text \<open>
  \<^verbatim>\<open>glm::translate(m, v)\<close>: the last column becomes
  \<^verbatim>\<open>m[0] * v[0] + m[1] * v[1] + m[2] * v[2] + m[3]\<close>.
  \<^verbatim>\<open>glm::scale(m, v)\<close>: the first three columns are scaled.
\<close>

fun translate :: "mat4 \<Rightarrow> vec3 \<Rightarrow> mat4" where
  "translate (Mat4 c0 c1 c2 c3) (Vec3 a b c) =
     Mat4 c0 c1 c2 (add4 (add4 (add4 (smul4 c0 a) (smul4 c1 b)) (smul4 c2 c)) c3)"

fun scale :: "mat4 \<Rightarrow> vec3 \<Rightarrow> mat4" where
  "scale (Mat4 c0 c1 c2 c3) (Vec3 a b c) = Mat4 (smul4 c0 a) (smul4 c1 b) (smul4 c2 c) c3"

text \<open>
  \<^verbatim>\<open>glm::frustum(left, right, bottom, top, nearVal, farVal)\<close>, the right-handed OpenGL
  perspective matrix (depth range -1 to 1; \<open>topV\<close> is its \<^verbatim>\<open>top\<close>). Its entries divide by \<^verbatim>\<open>right - left\<close>,
  \<^verbatim>\<open>top - bottom\<close> and \<^verbatim>\<open>farVal - nearVal\<close>.
\<close>

definition frustum :: "real \<Rightarrow> real \<Rightarrow> real \<Rightarrow> real \<Rightarrow> real \<Rightarrow> real \<Rightarrow> mat4 option" where
  "frustum left right bottom topV nearVal farVal =
     do {
       m00 \<leftarrow> fdiv (2 * nearVal) (right - left);
       m11 \<leftarrow> fdiv (2 * nearVal) (topV - bottom);
       m20 \<leftarrow> fdiv (right + left) (right - left);
       m21 \<leftarrow> fdiv (topV + bottom) (topV - bottom);
       m22 \<leftarrow> fdiv (- (farVal + nearVal)) (farVal - nearVal);
       m32 \<leftarrow> fdiv (- (2 * farVal * nearVal)) (farVal - nearVal);
       Some (Mat4 (Vec4 m00 0 0 0) (Vec4 0 m11 0 0) (Vec4 m20 m21 m22 (- 1)) (Vec4 0 0 m32 0))
     }"

section \<open>The off-axis frustum of one surface\<close>

text \<open>
  \<^verbatim>\<open>ColorCubeScene::render\<close> computes, for the left wall, the right wall and the floor in
  turn (lines 1037-1056, 1063-1082 and 1089-1108, the same statements on three vertex
  arrays), a basis of the surface, the distance of the eye from its plane, the four
  extents of the frustum on the near plane 0.001 and the matrix
  \<^verbatim>\<open>glm::frustum(l, r, b, t, 0.001f, 1000.f) * M * T\<close>. The block is written once here, as
  a function of the four vertices of the surface and of \<^verbatim>\<open>eyePos[eye]\<close>.
\<close>

type_synonym verts4 = "vec3 \<times> vec3 \<times> vec3 \<times> vec3"

text \<open>\<^verbatim>\<open>vr\<close>, \<^verbatim>\<open>vu\<close> and \<^verbatim>\<open>vn\<close>.\<close>

fun screenBasis :: "verts4 \<Rightarrow> (vec3 \<times> vec3 \<times> vec3) option" where
  "screenBasis (p0, p1, p2, p3) =
     do {
       vr \<leftarrow> normalize (sub3 p1 p0);
       vu \<leftarrow> normalize (sub3 p3 p0);
       vn \<leftarrow> normalize (cross vr vu);
       Some (vr, vu, vn)
     }"

text \<open>\<^verbatim>\<open>dist = -glm::dot(vn, va)\<close>.\<close>

fun planeDist :: "verts4 \<Rightarrow> vec3 \<Rightarrow> real option" where
  "planeDist (p0, p1, p2, p3) eyeP =
     do {
       (vr, vu, vn) \<leftarrow> screenBasis (p0, p1, p2, p3);
       Some (- dot vn (sub3 p0 eyeP))
     }"

text \<open>\<^verbatim>\<open>l\<close>, \<^verbatim>\<open>r\<close>, \<^verbatim>\<open>b\<close> and \<^verbatim>\<open>t\<close>: each is \<^verbatim>\<open>glm::dot(..) * 0.001f / dist\<close>.\<close>

fun frustumExtents :: "verts4 \<Rightarrow> vec3 \<Rightarrow> (real \<times> real \<times> real \<times> real) option" where
  "frustumExtents (p0, p1, p2, p3) eyeP =
     do {
       (vr, vu, vn) \<leftarrow> screenBasis (p0, p1, p2, p3);
       dist \<leftarrow> planeDist (p0, p1, p2, p3) eyeP;
       l \<leftarrow> fdiv (dot vr (sub3 p0 eyeP) * 0.001) dist;
       r \<leftarrow> fdiv (dot vr (sub3 p1 eyeP) * 0.001) dist;
       b \<leftarrow> fdiv (dot vu (sub3 p0 eyeP) * 0.001) dist;
       t \<leftarrow> fdiv (dot vu (sub3 p3 eyeP) * 0.001) dist;
       Some (l, r, b, t)
     }"

text \<open>
  \<^verbatim>\<open>M\<close> has the rows \<^verbatim>\<open>vr\<close>, \<^verbatim>\<open>vu\<close>, \<^verbatim>\<open>vn\<close> (it is built by columns and transposed);
  \<^verbatim>\<open>T\<close> translates by the negated eye position.
\<close>

fun basisMatrix :: "vec3 \<times> vec3 \<times> vec3 \<Rightarrow> mat4" where
  "basisMatrix (vr, vu, vn) =
     transpose4 (Mat4 (vec4_of vr 0) (vec4_of vu 0) (vec4_of vn 0) (col3 mat4_1))"

definition eyeTranslation :: "vec3 \<Rightarrow> mat4" where
  "eyeTranslation eyeP =
     Mat4 (col0 mat4_1) (col1 mat4_1) (col2 mat4_1) (Vec4 (- x3 eyeP) (- y3 eyeP) (- z3 eyeP) 1)"

fun quadProjection :: "verts4 \<Rightarrow> vec3 \<Rightarrow> mat4 option" where
  "quadProjection (p0, p1, p2, p3) eyeP =
     do {
       basis \<leftarrow> screenBasis (p0, p1, p2, p3);
       (l, r, b, t) \<leftarrow> frustumExtents (p0, p1, p2, p3) eyeP;
       P \<leftarrow> frustum l r b t 0.001 1000;
       Some (mat_mul (mat_mul P (basisMatrix basis)) (eyeTranslation eyeP))
     }"

text \<open>
  What the display does with the matrix is not code of the program: OpenGL divides the
  clip coordinates \<^verbatim>\<open>P * v\<close> of a vertex by their \<^verbatim>\<open>w\<close>, and the image is the square
  from -1 to 1 in the resulting \<^verbatim>\<open>x\<close> and \<^verbatim>\<open>y\<close>. \<open>cornersNDC\<close> sends the four corners of
  a surface through the matrix computed for it and through that division.
\<close>

fun ndc_xy :: "vec4 \<Rightarrow> real \<times> real" where
  "ndc_xy (Vec4 x y z w) = (x / w, y / w)"

fun cornersNDC :: "verts4 \<Rightarrow> vec3 \<Rightarrow> (real \<times> real) list option" where
  "cornersNDC (p0, p1, p2, p3) eyeP =
     do {
       PV \<leftarrow> quadProjection (p0, p1, p2, p3) eyeP;
       Some (map (\<lambda>p. ndc_xy (mulv PV (vec4_of p 1))) [p0, p1, p2, p3])
     }"

text \<open>
  The conditions the specification puts on a surface: its four corners lie in one plane,
  and the tangents \<^verbatim>\<open>corners[1] - corners[0]\<close> and \<^verbatim>\<open>corners[3] - corners[0]\<close> have a
  cross product other than zero.
\<close>

fun coplanar :: "verts4 \<Rightarrow> bool" where
  "coplanar (p0, p1, p2, p3) = (dot (cross (sub3 p1 p0) (sub3 p3 p0)) (sub3 p2 p0) = 0)"

fun nonDegenerate :: "verts4 \<Rightarrow> bool" where
  "nonDegenerate (p0, p1, p2, p3) = (cross (sub3 p1 p0) (sub3 p3 p0) \<noteq> Vec3 0 0 0)"

text \<open>The surface of the specification's scenario: the unit square around the origin, facing +Z.\<close>

definition unitQuad :: verts4 where
  "unitQuad = (Vec3 (- 0.5) (- 0.5) 0, Vec3 0.5 (- 0.5) 0, Vec3 0.5 0.5 0, Vec3 (- 0.5) 0.5 0)"

text \<open>Two surfaces that are flat and not degenerate, and not rectangles: a kite and a slanted parallelogram.\<close>

definition kiteQuad :: verts4 where
  "kiteQuad = (Vec3 0 0 0, Vec3 1 0 0, Vec3 2 2 0, Vec3 0 1 0)"

definition slantedQuad :: verts4 where
  "slantedQuad = (Vec3 0 0 0, Vec3 1 0 0, Vec3 1.6 0.8 0, Vec3 0.6 0.8 0)"

section \<open>The scene and the controller input\<close>

text \<open>
  The Oculus SDK types, as far as the program reads them. \<^verbatim>\<open>ovrEye_Left\<close> and
  \<^verbatim>\<open>ovrHand_Left\<close> are 0, \<^verbatim>\<open>ovrEye_Right\<close> and \<^verbatim>\<open>ovrHand_Right\<close> are 1 (the program's macros
  \<^verbatim>\<open>LEFT\<close> and \<^verbatim>\<open>RIGHT\<close> are the same indices); an array indexed by them is a function.
  \<^verbatim>\<open>Buttons\<close> is a 32-bit mask; the masks of the buttons are those of \<^verbatim>\<open>OVR_CAPI.h\<close>.
\<close>

datatype ovrEyeType = ovrEye_Left | ovrEye_Right

datatype ovrHandType = ovrHand_Left | ovrHand_Right

datatype quat = Quat (qx: real) (qy: real) (qz: real) (qw: real)

record ovrPosef =
  Orientation :: quat
  Position :: vec3

record ovrInputState =
  Buttons :: "32 word"
  Thumbstick :: "ovrHandType \<Rightarrow> vec2"
  HandTrigger :: "ovrHandType \<Rightarrow> real"

definition ovrButton_A :: "32 word" where
  "ovrButton_A = 0x00000001"

definition ovrButton_B :: "32 word" where
  "ovrButton_B = 0x00000002"

definition ovrButton_X :: "32 word" where
  "ovrButton_X = 0x00000100"

definition ovrButton_LThumb :: "32 word" where
  "ovrButton_LThumb = 0x00000400"

text \<open>
  The members of \<^verbatim>\<open>ColorCubeScene\<close> that \<^verbatim>\<open>checkInput\<close> and \<^verbatim>\<open>render\<close> read or write.
  Left out are the handles of OpenGL objects, the meshes, and the buffers
  \<^verbatim>\<open>trackstate\<close>, \<^verbatim>\<open>inputstate\<close> and \<^verbatim>\<open>handPoses\<close>, which \<^verbatim>\<open>render\<close> fills from the device
  before it reads them.
\<close>

record scene =
  boxtransform :: mat4
  boxScale :: real
  leftWallVerts :: verts4
  rightWallVerts :: verts4
  floorVerts :: verts4
  eyePos :: "ovrEyeType \<Rightarrow> vec3"
  quadProjections :: "mat4 option list"
  posOnly :: mat4
  B_down :: bool
  A_down :: bool
  X_down :: bool
  track :: bool
  debug :: bool
  broken :: bool
  viewFromController :: bool
  triggerPressed :: "ovrHandType \<Rightarrow> bool"

text \<open>
  The state after the constructor: the member initialisers, GLM's default constructors
  (the zero vector, the identity matrix) and the one assignment
  \<^verbatim>\<open>boxtransform = glm::translate(boxtransform, glm::vec3(0.0f, 0.f, -1.f))\<close>.
\<close>

definition initScene :: scene where
  "initScene =
     \<lparr> boxtransform = translate mat4_1 (Vec3 0 0 (- 1)),
       boxScale = 0.2,
       leftWallVerts = (Vec3 0 0 0, Vec3 0 0 0, Vec3 0 0 0, Vec3 0 0 0),
       rightWallVerts = (Vec3 0 0 0, Vec3 0 0 0, Vec3 0 0 0, Vec3 0 0 0),
       floorVerts = (Vec3 0 0 0, Vec3 0 0 0, Vec3 0 0 0, Vec3 0 0 0),
       eyePos = (\<lambda>e. Vec3 0 0 0),
       quadProjections = [Some mat4_1, Some mat4_1, Some mat4_1],
       posOnly = mat4_1,
       B_down = False,
       A_down = False,
       X_down = False,
       track = True,
       debug = False,
       broken = False,
       viewFromController = False,
       triggerPressed = (\<lambda>h. False) \<rparr>"

subsection \<open>\<^verbatim>\<open>ColorCubeScene::checkInput\<close>\<close>

text \<open>
  The body of \<^verbatim>\<open>checkInput\<close> is a sequence of six blocks, each a function of the input
  state read from the device and of the scene. In the source,
  \<^verbatim>\<open>inputState.Buttons & ovrButton_B && !B_down\<close> is \<^verbatim>\<open>(Buttons & ovrButton_B) && !B_down\<close>.
\<close>

text \<open>Lines 1242-1247: the left thumbstick, moved sideways, changes the size of the box.\<close>

definition scaleBox :: "ovrInputState \<Rightarrow> scene \<Rightarrow> scene" where
  "scaleBox inputState s =
     (if x2 (Thumbstick inputState ovrHand_Left) \<noteq> 0
      then let temp = boxScale s + x2 (Thumbstick inputState ovrHand_Left) * 0.01
           in if temp > 0.01 \<and> temp < 1.0 then s\<lparr>boxScale := temp\<rparr> else s
      else s)"

text \<open>Lines 1249-1252: a press of the left thumbstick resets the size.\<close>

definition resetScale :: "ovrInputState \<Rightarrow> scene \<Rightarrow> scene" where
  "resetScale inputState s =
     (if Buttons inputState AND ovrButton_LThumb \<noteq> 0 then s\<lparr>boxScale := 0.2\<rparr> else s)"

text \<open>Lines 1254-1259: the right thumbstick and the left one, moved up or down, move the box.\<close>

definition translateBox :: "ovrInputState \<Rightarrow> scene \<Rightarrow> scene" where
  "translateBox inputState s =
     (if x2 (Thumbstick inputState ovrHand_Right) \<noteq> 0 \<or> y2 (Thumbstick inputState ovrHand_Right) \<noteq> 0
         \<or> y2 (Thumbstick inputState ovrHand_Left) \<noteq> 0
      then s\<lparr>boxtransform :=
             translate (boxtransform s)
               (Vec3 (x2 (Thumbstick inputState ovrHand_Right) * 0.01)
                     (y2 (Thumbstick inputState ovrHand_Right) * 0.01)
                     (y2 (Thumbstick inputState ovrHand_Left) * - 0.01))\<rparr>
      else s)"

text \<open>
  Lines 1261-1269: button B and the tracking flag (the \<^verbatim>\<open>printf\<close> of the new mode is left
  out). Lines 1271-1278: button A and the debug flag. Lines 1280-1287: button X and the
  flag \<^verbatim>\<open>broken\<close>.
\<close>

definition toggleTrack :: "ovrInputState \<Rightarrow> scene \<Rightarrow> scene" where
  "toggleTrack inputState s =
     (let s1 = (if Buttons inputState AND ovrButton_B \<noteq> 0 \<and> \<not> B_down s
                then s\<lparr>B_down := True, track := \<not> track s\<rparr> else s)
      in if \<not> (Buttons inputState AND ovrButton_B \<noteq> 0) then s1\<lparr>B_down := False\<rparr> else s1)"

definition toggleDebug :: "ovrInputState \<Rightarrow> scene \<Rightarrow> scene" where
  "toggleDebug inputState s =
     (let s1 = (if Buttons inputState AND ovrButton_A \<noteq> 0 \<and> \<not> A_down s
                then s\<lparr>A_down := True, debug := \<not> debug s\<rparr> else s)
      in if \<not> (Buttons inputState AND ovrButton_A \<noteq> 0) then s1\<lparr>A_down := False\<rparr> else s1)"

definition toggleBroken :: "ovrInputState \<Rightarrow> scene \<Rightarrow> scene" where
  "toggleBroken inputState s =
     (let s1 = (if Buttons inputState AND ovrButton_X \<noteq> 0 \<and> \<not> X_down s
                then s\<lparr>X_down := True, broken := \<not> broken s\<rparr> else s)
      in if \<not> (Buttons inputState AND ovrButton_X \<noteq> 0) then s1\<lparr>X_down := False\<rparr> else s1)"

text \<open>
  \<^verbatim>\<open>checkInput\<close> itself. The argument is what \<^verbatim>\<open>ovr_GetInputState\<close> gave: \<open>None\<close> when
  the call did not succeed, and then nothing is done.
\<close>

definition checkInput :: "ovrInputState option \<Rightarrow> scene \<Rightarrow> scene" where
  "checkInput q s =
     (case q of
        None \<Rightarrow> s
      | Some inputState \<Rightarrow>
          toggleBroken inputState
            (toggleDebug inputState
              (toggleTrack inputState
                (translateBox inputState
                  (resetScale inputState
                    (scaleBox inputState s))))))"

subsection \<open>\<^verbatim>\<open>ColorCubeScene::render\<close>\<close>

text \<open>
  \<^verbatim>\<open>glm::rotate(m, angle, v)\<close>. GLM normalises the axis \<^verbatim>\<open>v\<close>; \<^verbatim>\<open>render\<close> passes the unit
  vectors (0,1,0), (1,0,0) and (0,0,1) only, whose length is 1.
  \<^verbatim>\<open>glm::radians\<close> converts degrees.
\<close>

definition radians :: "real \<Rightarrow> real" where
  "radians degrees = degrees * (pi / 180)"

definition rotate_glm :: "mat4 \<Rightarrow> real \<Rightarrow> vec3 \<Rightarrow> mat4" where
  "rotate_glm m angle v =
     (let c = cos angle;
          s = sin angle;
          axis = smul3 v (1 / sqrt (dot v v));
          temp = smul3 axis (1 - c);
          r00 = c + x3 temp * x3 axis;
          r01 = x3 temp * y3 axis + s * z3 axis;
          r02 = x3 temp * z3 axis - s * y3 axis;
          r10 = y3 temp * x3 axis - s * z3 axis;
          r11 = c + y3 temp * y3 axis;
          r12 = y3 temp * z3 axis + s * x3 axis;
          r20 = z3 temp * x3 axis + s * y3 axis;
          r21 = z3 temp * y3 axis - s * x3 axis;
          r22 = c + z3 temp * z3 axis
      in Mat4 (add4 (add4 (smul4 (col0 m) r00) (smul4 (col1 m) r01)) (smul4 (col2 m) r02))
              (add4 (add4 (smul4 (col0 m) r10) (smul4 (col1 m) r11)) (smul4 (col2 m) r12))
              (add4 (add4 (smul4 (col0 m) r20) (smul4 (col1 m) r21)) (smul4 (col2 m) r22))
              (col3 m))"

text \<open>
  \<^verbatim>\<open>glm::mat4_cast\<close> of a quaternion, and \<^verbatim>\<open>ovr::toGlm\<close> of a pose:
  \<^verbatim>\<open>translation * orientation\<close>, where \<^verbatim>\<open>mat4()\<close> is the identity.
\<close>

fun mat4_cast :: "quat \<Rightarrow> mat4" where
  "mat4_cast (Quat x y z w) =
     Mat4 (Vec4 (1 - 2 * (y * y + z * z)) (2 * (x * y + w * z)) (2 * (x * z - w * y)) 0)
          (Vec4 (2 * (x * y - w * z)) (1 - 2 * (x * x + z * z)) (2 * (y * z + w * x)) 0)
          (Vec4 (2 * (x * z + w * y)) (2 * (y * z - w * x)) (1 - 2 * (x * x + y * y)) 0)
          (Vec4 0 0 0 1)"

definition toGlm :: "ovrPosef \<Rightarrow> mat4" where
  "toGlm op =
     (let orientation = mat4_cast (Orientation op);
          translation = translate mat4_1 (Position op)
      in mat_mul translation orientation)"

text \<open>
  What \<^verbatim>\<open>render\<close> takes from outside the file. The class \<^verbatim>\<open>Quad\<close> (\<^verbatim>\<open>Quad.h\<close>) is not among
  the sources: the four \<^verbatim>\<open>vertices\<close> of each of the three quads are parameters.
  \<^verbatim>\<open>glm::inverse\<close> is a parameter as well; its result goes to a shader uniform only.
\<close>

record env =
  leftwall_vertices :: verts4
  rightwall_vertices :: verts4
  floor_vertices :: verts4
  inverse4 :: "mat4 \<Rightarrow> mat4"

text \<open>
  The arguments of one call of \<^verbatim>\<open>render\<close>, and what the device answers during it:
  the result of \<^verbatim>\<open>ovr_GetInputState\<close> inside \<^verbatim>\<open>checkInput\<close>, the pose of the right hand
  in the tracking state, and the result of the second \<^verbatim>\<open>ovr_GetInputState\<close>, the one
  \<^verbatim>\<open>render\<close> makes for the hand trigger. \<open>RenderPose\<close> is \<^verbatim>\<open>_sceneLayer.RenderPose\<close>.
  \<^verbatim>\<open>RiftApp::draw\<close> calls \<^verbatim>\<open>render\<close> twice for each displayed frame, once for each eye.
\<close>

record renderArgs =
  projection :: mat4
  modelview :: mat4
  eye :: ovrEyeType
  RenderPose :: "ovrEyeType \<Rightarrow> ovrPosef"
  checkInputQuery :: "ovrInputState option"
  handPoseRight :: ovrPosef
  triggerQuery :: "ovrInputState option"

text \<open>
  What a call of \<^verbatim>\<open>render\<close> displays is the list of its draw calls, each with the
  program in use, the framebuffer drawn to and the uniforms of that program at that
  moment. \<open>Fbo k\<close> is the program's own framebuffer with \<^verbatim>\<open>renderedTextures[k]\<close> attached.
  A uniform the program never sets is \<open>None\<close>.
\<close>

datatype program = shaderProg | screenShaderProg | pyrShaderProg

datatype mesh = BiggerSkyBox | BoxMesh | SkyBox | LeftWall | RightWall | Floor | Pyramid "vec3 list"

datatype texture = texture_biggerskybox | texture_box | texture_skybox ovrEyeType | renderedTextures nat

datatype target = Hmd_fbo | Fbo nat

record draw =
  prog :: program
  mesh :: mesh
  target :: target
  uProjection :: "mat4 option"
  uModelview :: mat4
  uTransform :: mat4
  uColor :: "vec3 option"
  uBroken :: "int option"
  tex :: "texture option"

fun eyeIndex :: "ovrEyeType \<Rightarrow> nat" where
  "eyeIndex ovrEye_Left = 0"
| "eyeIndex ovrEye_Right = 1"

text \<open>Lines 940-945: the hand trigger, and the view-from-controller flag.\<close>

definition pollTrigger :: "ovrInputState option \<Rightarrow> scene \<Rightarrow> scene" where
  "pollTrigger q s =
     (let s1 = (case q of
                  Some inputstate \<Rightarrow>
                    s\<lparr>triggerPressed :=
                        (triggerPressed s)(ovrHand_Right := HandTrigger inputstate ovrHand_Right > 0.5)\<rparr>
                | None \<Rightarrow> s)
      in s1\<lparr>viewFromController := triggerPressed s1 ovrHand_Right\<rparr>)"

text \<open>
  Lines 964-973: the view matrix of the scene passes. With the view from the controller
  it is the inverse of the pose of the hand; otherwise it is \<^verbatim>\<open>posOnly\<close>, whose last
  column follows \<^verbatim>\<open>modelview\<close> while the tracking flag is set.
\<close>

definition sceneView :: "env \<Rightarrow> renderArgs \<Rightarrow> scene \<Rightarrow> scene \<times> mat4" where
  "sceneView env a s =
     (if viewFromController s
      then (s, inverse4 env (toGlm (handPoseRight a)))
      else let s1 = (if track s
                     then s\<lparr>posOnly := Mat4 (col0 (posOnly s)) (col1 (posOnly s)) (col2 (posOnly s))
                                              (col3 (modelview a))\<rparr>
                     else s)
           in (s1, posOnly s1))"

text \<open>Lines 999-1013: the placement of the three walls.\<close>

definition leftTransform :: mat4 where
  "leftTransform =
     translate (scale (rotate_glm mat4_1 (radians 45) (Vec3 0 1 0)) (Vec3 1.2 1.2 1.2)) (Vec3 0 0 (- 1))"

definition rightTransform :: mat4 where
  "rightTransform =
     translate (scale (rotate_glm mat4_1 (radians (- 45)) (Vec3 0 1 0)) (Vec3 1.2 1.2 1.2)) (Vec3 0 0 (- 1))"

definition floorTransform :: mat4 where
  "floorTransform =
     translate
       (scale (rotate_glm (rotate_glm mat4_1 (radians (- 90)) (Vec3 1 0 0)) (radians 45) (Vec3 0 0 1))
          (Vec3 1.2 1.2 1.2))
       (Vec3 0 0 (- 1))"

text \<open>Lines 1016-1032: the eye position the frusta are computed for.\<close>

definition updateEyePos :: "renderArgs \<Rightarrow> scene \<Rightarrow> scene" where
  "updateEyePos a s =
     (if viewFromController s
      then (if track s
            then (case eye a of
                    ovrEye_Left \<Rightarrow>
                      s\<lparr>eyePos := (eyePos s)(eye a :=
                          sub3 (Position (handPoseRight a)) (Vec3 0.0325 0 0))\<rparr>
                  | ovrEye_Right \<Rightarrow>
                      s\<lparr>eyePos := (eyePos s)(eye a :=
                          add3 (Position (handPoseRight a)) (Vec3 0.0325 0 0))\<rparr>)
            else s)
      else (if track s
            then s\<lparr>eyePos := (eyePos s)(eye a := Position (RenderPose a (eye a)))\<rparr>
            else s))"

text \<open>Lines 1033-1108: the vertices of the walls in the world, and the three matrices.\<close>

fun transformVerts :: "mat4 \<Rightarrow> verts4 \<Rightarrow> verts4" where
  "transformVerts m (p0, p1, p2, p3) =
     (vec3_of (mulv m (vec4_of p0 1)), vec3_of (mulv m (vec4_of p1 1)),
      vec3_of (mulv m (vec4_of p2 1)), vec3_of (mulv m (vec4_of p3 1)))"

definition updateFrusta :: "env \<Rightarrow> renderArgs \<Rightarrow> scene \<Rightarrow> scene" where
  "updateFrusta env a s =
     (let lv = transformVerts leftTransform (leftwall_vertices env);
          rv = transformVerts rightTransform (rightwall_vertices env);
          fv = transformVerts floorTransform (floor_vertices env)
      in s\<lparr>leftWallVerts := lv,
            rightWallVerts := rv,
            floorVerts := fv,
            quadProjections :=
              [quadProjection lv (eyePos s (eye a)),
               quadProjection rv (eyePos s (eye a)),
               quadProjection fv (eyePos s (eye a))]\<rparr>)"

text \<open>
  Lines 1118-1137: for each of the three surfaces, the box and then the sky box are
  drawn into the texture of the surface and the eye, through the matrix of the surface.
\<close>

definition surfacePass :: "renderArgs \<Rightarrow> scene \<Rightarrow> mat4 \<Rightarrow> nat \<Rightarrow> draw list" where
  "surfacePass a s view i =
     [\<lparr> prog = shaderProg, mesh = BoxMesh, target = Fbo (eyeIndex (eye a) * 3 + i),
        uProjection = quadProjections s ! i, uModelview = view,
        uTransform = scale (boxtransform s) (Vec3 (boxScale s) (boxScale s) (boxScale s)),
        uColor = None, uBroken = None, tex = Some texture_box \<rparr>,
      \<lparr> prog = shaderProg, mesh = SkyBox, target = Fbo (eyeIndex (eye a) * 3 + i),
        uProjection = quadProjections s ! i, uModelview = view,
        uTransform = scale mat4_1 (Vec3 20 20 20),
        uColor = None, uBroken = None, tex = Some (texture_skybox (eye a)) \<rparr>]"

definition surfacePasses :: "renderArgs \<Rightarrow> scene \<Rightarrow> mat4 \<Rightarrow> draw list" where
  "surfacePasses a s view = concat (map (surfacePass a s view) [0, 1, 2])"

text \<open>
  Lines 1149-1182: the three walls are drawn into the eye buffer of the headset with the
  projection and the view of the head. The uniform \<^verbatim>\<open>broken\<close> is set to 0 before the
  walls, and to 2 before the floor \<^verbatim>\<open>if(eye && broken)\<close>.
\<close>

definition compositor :: "renderArgs \<Rightarrow> scene \<Rightarrow> draw list" where
  "compositor a s =
     [\<lparr> prog = screenShaderProg, mesh = LeftWall, target = Hmd_fbo,
        uProjection = Some (projection a), uModelview = modelview a, uTransform = leftTransform,
        uColor = Some (Vec3 0 0.7 0), uBroken = Some 0,
        tex = Some (renderedTextures (eyeIndex (eye a) * 3)) \<rparr>,
      \<lparr> prog = screenShaderProg, mesh = RightWall, target = Hmd_fbo,
        uProjection = Some (projection a), uModelview = modelview a, uTransform = rightTransform,
        uColor = Some (Vec3 0 0 0.7), uBroken = Some 0,
        tex = Some (renderedTextures (eyeIndex (eye a) * 3 + 1)) \<rparr>,
      \<lparr> prog = screenShaderProg, mesh = Floor, target = Hmd_fbo,
        uProjection = Some (projection a), uModelview = modelview a, uTransform = floorTransform,
        uColor = Some (Vec3 0.7 0 0),
        uBroken = Some (if eye a \<noteq> ovrEye_Left \<and> broken s then 2 else 0),
        tex = Some (renderedTextures (eyeIndex (eye a) * 3 + 2)) \<rparr>]"

text \<open>
  Lines 1188-1234: with the debug flag, a pyramid from the eye position to the four
  vertices of each wall.
\<close>

fun pyramidOf :: "vec3 \<Rightarrow> verts4 \<Rightarrow> mesh" where
  "pyramidOf apex (p0, p1, p2, p3) = Pyramid [apex, p0, p1, p3, p2]"

definition wireframes :: "renderArgs \<Rightarrow> scene \<Rightarrow> draw list" where
  "wireframes a s =
     (if debug s
      then map (\<lambda>(color, verts).
                  \<lparr> prog = pyrShaderProg, mesh = pyramidOf (eyePos s (eye a)) verts, target = Hmd_fbo,
                    uProjection = Some (projection a), uModelview = modelview a, uTransform = mat4_1,
                    uColor = Some color, uBroken = None, tex = None \<rparr>)
             [(Vec3 0 0 1, leftWallVerts s), (Vec3 1 0 0, rightWallVerts s), (Vec3 0 1 0, floorVerts s)]
      else [])"

text \<open>The whole of \<^verbatim>\<open>render\<close>: the new state of the scene and the draw calls, in order.\<close>

definition render :: "env \<Rightarrow> renderArgs \<Rightarrow> scene \<Rightarrow> scene \<times> draw list" where
  "render env a s =
     (let s1 = checkInput (checkInputQuery a) s;
          s2 = pollTrigger (triggerQuery a) s1;
          sky = \<lparr> prog = shaderProg, mesh = BiggerSkyBox, target = Hmd_fbo,
                  uProjection = Some (projection a), uModelview = modelview a,
                  uTransform = scale mat4_1 (Vec3 20 20 20),
                  uColor = None, uBroken = None, tex = Some texture_biggerskybox \<rparr>;
          (s3, view) = sceneView env a s2;
          s4 = updateEyePos a s3;
          s5 = updateFrusta env a s4
      in (s5, sky # surfacePasses a s5 view @ compositor a s5 @ wireframes a s5))"

text \<open>A run of the program: one call of \<^verbatim>\<open>render\<close> after the other, from a given state.\<close>

fun run :: "env \<Rightarrow> scene \<Rightarrow> renderArgs list \<Rightarrow> scene" where
  "run env s [] = s"
| "run env s (a # as) = run env (fst (render env a s)) as"

text \<open>
  The states a run goes through, one after each call of \<^verbatim>\<open>render\<close>, and the number of
  times a flag changes its value along a list of states that follows the state \<open>s\<close>.
\<close>

fun trace :: "env \<Rightarrow> scene \<Rightarrow> renderArgs list \<Rightarrow> scene list" where
  "trace env s [] = []"
| "trace env s (a # as) = fst (render env a s) # trace env (fst (render env a s)) as"

fun flips :: "(scene \<Rightarrow> bool) \<Rightarrow> scene \<Rightarrow> scene list \<Rightarrow> nat" where
  "flips f s [] = 0"
| "flips f s (t # ts) = (if f t = f s then 0 else 1) + flips f t ts"

text \<open>
  What a call of \<^verbatim>\<open>render\<close> learns of a button: \<open>held\<close> when the device answered and the
  bit of the button is set, \<open>released\<close> when the device answered and the bit is clear.
  A call that the device did not answer is neither.
\<close>

definition held :: "32 word \<Rightarrow> renderArgs \<Rightarrow> bool" where
  "held b a = (case checkInputQuery a of None \<Rightarrow> False | Some i \<Rightarrow> Buttons i AND b \<noteq> 0)"

definition released :: "32 word \<Rightarrow> renderArgs \<Rightarrow> bool" where
  "released b a = (case checkInputQuery a of None \<Rightarrow> False | Some i \<Rightarrow> Buttons i AND b = 0)"

text \<open>The meshes that are drawn with the uniform \<^verbatim>\<open>broken\<close> set to a value other than 0.\<close>

definition brokenDraws :: "draw list \<Rightarrow> mesh list" where
  "brokenDraws ds = map mesh (filter (\<lambda>d. uBroken d \<noteq> None \<and> uBroken d \<noteq> Some 0) ds)"

section \<open>Loading the textures\<close>

text \<open>
  \<^verbatim>\<open>loadPPM\<close> (lines 636-687) reads a file with the C library. The file system is a map
  from the names of the files that \<^verbatim>\<open>fopen\<close> can open to their contents, a list of bytes;
  a stream is the list of the bytes not yet read. The result of \<^verbatim>\<open>loadPPM\<close> is the returned
  pointer (\<open>None\<close> is the null pointer; otherwise the bytes it points to) with the values
  left in \<^verbatim>\<open>width\<close> and \<^verbatim>\<open>height\<close>. The messages written to \<^verbatim>\<open>std::cerr\<close> are left out, read
  errors of the device do not occur, and \<^verbatim>\<open>new\<close> finds the memory it asks for.

  A call that yields no result at all is \<open>None\<close>: one that never returns, that throws, or
  whose outcome hangs on memory that was never written or on an overflow of \<^verbatim>\<open>int\<close>.
\<close>

type_synonym pixels = string

type_synonym ppm = "pixels option \<times> int \<times> int"

text \<open>
  \<^verbatim>\<open>fgets(buf, BUFSIZE, fp)\<close> with \<^verbatim>\<open>BUFSIZE = 128\<close>: at most 127 bytes, up to and with the
  first newline. At the end of the file nothing is read and the buffer keeps what it
  held. The program ignores the value that \<^verbatim>\<open>fgets\<close> returns. A buffer that was never
  written is \<open>None\<close>.
\<close>

fun fgets_line :: "nat \<Rightarrow> string \<Rightarrow> string \<times> string" where
  "fgets_line n [] = ([], [])"
| "fgets_line n (c # cs) =
     (if n = 0 then ([], c # cs)
      else if c = CHR 0x0A then ([c], cs)
      else case fgets_line (n - 1) cs of (l, r) \<Rightarrow> (c # l, r))"

definition fgets :: "string option \<Rightarrow> string \<Rightarrow> string option \<times> string" where
  "fgets buf s = (if s = [] then (buf, s) else case fgets_line 127 s of (l, r) \<Rightarrow> (Some l, r))"

fun firstChar :: "string \<Rightarrow> char" where
  "firstChar [] = CHR 0x00"
| "firstChar (c # cs) = c"

text \<open>
  The loop \<^verbatim>\<open>do { fgets(buf[0], BUFSIZE, fp); } while (buf[0][0] == '#');\<close>. It gives the
  line it stops at and the rest of the stream. At the end of the file the buffer no
  longer changes: the loop runs for ever when the buffer holds a comment line.
\<close>

function skipComments :: "string option \<Rightarrow> string \<Rightarrow> (string \<times> string) option" where
  "skipComments buf s =
     (case fgets buf s of
        (None, r) \<Rightarrow> None
      | (Some l, r) \<Rightarrow>
          if firstChar l = CHR ''#''
          then (if s = [] then None else skipComments (Some l) r)
          else Some (l, r))"
  by pat_completeness auto
termination
proof (relation "measure (\<lambda>(buf, s). length s)", goal_cases)
  case 1
  show ?case by simp
next
  case (2 buf s b rest line)
  have shorter: "s \<noteq> [] \<Longrightarrow> 0 < n \<Longrightarrow> length (snd (fgets_line n s)) < length s" for n s
  proof (induction s arbitrary: n)
    case Nil
    then show ?case by simp
  next
    case (Cons c cs)
    show ?case
    proof (cases "cs = [] \<or> n - 1 = 0")
      case True
      with Cons.prems show ?thesis
        by (cases cs) (auto split: prod.split)
    next
      case False
      with Cons.IH[of "n - 1"] have "length (snd (fgets_line (n - 1) cs)) < length cs"
        by simp
      with Cons.prems show ?thesis
        by (auto split: prod.split)
    qed
  qed
  from 2 have "fgets buf s = (Some line, rest)" and "s \<noteq> []"
    by simp_all
  with shorter[of s 127] have "length rest < length s"
    by (auto simp: fgets_def split: prod.splits)
  then show ?case
    by simp
qed

text \<open>
  \<^verbatim>\<open>sscanf(buf[0], "%s %s", buf[1], buf[2])\<close>: the first two words of the C string in the
  buffer, between white space. A word that is not there leaves its buffer unwritten.
  \<^verbatim>\<open>atoi\<close>: an optional sign and the decimal digits that follow; the behaviour is
  undefined when the value does not fit an \<^verbatim>\<open>int\<close> of 32 bits.
\<close>

definition isspace :: "char \<Rightarrow> bool" where
  "isspace c = (c \<in> set [CHR 0x20, CHR 0x09, CHR 0x0A, CHR 0x0B, CHR 0x0C, CHR 0x0D])"

definition isdigit :: "char \<Rightarrow> bool" where
  "isdigit c = (48 \<le> (of_char c :: nat) \<and> (of_char c :: nat) \<le> 57)"

definition cstring :: "string \<Rightarrow> string" where
  "cstring b = takeWhile (\<lambda>c. c \<noteq> CHR 0x00) b"

definition sscanf_s_s :: "string \<Rightarrow> string option \<times> string option" where
  "sscanf_s_s b =
     (let s0 = dropWhile isspace (cstring b);
          t1 = takeWhile (\<lambda>c. \<not> isspace c) s0;
          s1 = dropWhile isspace (dropWhile (\<lambda>c. \<not> isspace c) s0);
          t2 = takeWhile (\<lambda>c. \<not> isspace c) s1
      in if t1 = [] then (None, None)
         else if t2 = [] then (Some t1, None)
         else (Some t1, Some t2))"

fun digitsValue :: "string \<Rightarrow> int \<Rightarrow> int" where
  "digitsValue [] acc = acc"
| "digitsValue (c # cs) acc =
     (if isdigit c then digitsValue cs (acc * 10 + (int (of_char c) - 48)) else acc)"

definition inInt :: "int \<Rightarrow> bool" where
  "inInt v = (- 2147483648 \<le> v \<and> v \<le> 2147483647)"

definition atoi :: "string \<Rightarrow> int option" where
  "atoi str =
     (let s0 = dropWhile isspace (cstring str);
          v = (case s0 of
                 [] \<Rightarrow> 0
               | c # cs \<Rightarrow>
                   if c = CHR ''-'' then - digitsValue cs 0
                   else if c = CHR ''+'' then digitsValue cs 0
                   else digitsValue s0 0)
      in if inInt v then Some v else None)"

text \<open>The product of two \<^verbatim>\<open>int\<close>s, undefined when it overflows.\<close>

definition imul :: "int \<Rightarrow> int \<Rightarrow> int option" where
  "imul a b = (if inInt (a * b) then Some (a * b) else None)"

text \<open>
  Lines 654-686, for a file that did open: the magic number (not looked at), the line of
  the width and the height after the comment lines, the line of the maximal value, and
  the pixels. \<^verbatim>\<open>new unsigned char[width * height * 3]\<close> throws for a negative size;
  \<^verbatim>\<open>fread(rawData, width * height * 3, 1, fp)\<close> returns 1 when the size is not 0 and that
  many bytes are left, and otherwise the program gives back the null pointer and sets the
  width and the height to 0.
\<close>

definition loadPPM_opened :: "string \<Rightarrow> ppm option" where
  "loadPPM_opened content =
     (case fgets None content of
        (buf0, s1) \<Rightarrow>
          do {
            (line, s2) \<leftarrow> skipComments buf0 s1;
            (case sscanf_s_s line of
               (buf1, buf2) \<Rightarrow>
                 do {
                   b1 \<leftarrow> buf1;
                   b2 \<leftarrow> buf2;
                   width \<leftarrow> atoi b1;
                   height \<leftarrow> atoi b2;
                   (maxval, s3) \<leftarrow> skipComments (Some line) s2;
                   wh \<leftarrow> imul width height;
                   n \<leftarrow> imul wh 3;
                   if n < 0 then None
                   else if n \<noteq> 0 \<and> nat n \<le> length s3
                        then Some (Some (take (nat n) s3), width, height)
                        else Some (None, 0, 0)
                 })
          })"

text \<open>
  The whole of \<^verbatim>\<open>loadPPM\<close>: when \<^verbatim>\<open>fopen\<close> fails, it sets \<^verbatim>\<open>width\<close> and \<^verbatim>\<open>height\<close> to 0 and
  returns 0.
\<close>

definition loadPPM :: "(string \<rightharpoonup> string) \<Rightarrow> string \<Rightarrow> ppm option" where
  "loadPPM fs filename =
     (case fs filename of
        None \<Rightarrow> Some (None, 0, 0)
      | Some content \<Rightarrow> loadPPM_opened content)"

text \<open>
  The part of the constructor of \<^verbatim>\<open>ColorCubeScene\<close> that loads the textures (lines
  825-871). \<^verbatim>\<open>Box::loadBoxTexture\<close> and \<^verbatim>\<open>Quad::loadQuadTexture\<close> are not among the sources;
  the model records each call of them, with the object it is made on and its arguments,
  and takes the call to return. Every call of \<^verbatim>\<open>loadPPM\<close> writes the members
  \<^verbatim>\<open>imgWidth\<close> and \<^verbatim>\<open>imgHeight\<close>.
\<close>

datatype receiver = Obj_box | Obj_skybox | Obj_biggerSkyBox | Obj_leftwall | Obj_rightwall | Obj_floor

datatype upload =
    loadBoxTexture receiver "pixels option list" int int
  | loadQuadTexture receiver "pixels option" int int

record images =
  imgData :: "pixels option"
  imgWidth :: int
  imgHeight :: int
  uploads :: "upload list"

text \<open>One call \<^verbatim>\<open>loadPPM(filename, imgWidth, imgHeight)\<close>: the pointer, and the members written.\<close>

definition load :: "(string \<rightharpoonup> string) \<Rightarrow> string \<Rightarrow> images \<Rightarrow> (pixels option \<times> images) option" where
  "load fs filename st =
     do {
       (d, w, h) \<leftarrow> loadPPM fs filename;
       Some (d, st\<lparr>imgWidth := w, imgHeight := h\<rparr>)
     }"

text \<open>The \<^verbatim>\<open>push_back\<close>s of the six faces of a sky box, in order.\<close>

fun loadFaces :: "(string \<rightharpoonup> string) \<Rightarrow> string list \<Rightarrow> images
    \<Rightarrow> (pixels option list \<times> images) option" where
  "loadFaces fs [] st = Some ([], st)"
| "loadFaces fs (f # fs') st =
     do {
       (d, st1) \<leftarrow> load fs f st;
       (ds, st2) \<leftarrow> loadFaces fs fs' st1;
       Some (d # ds, st2)
     }"

text \<open>
  A sky box is uploaded with \<^verbatim>\<open>imgWidth\<close> for both its width and its height, as the
  source has it; a wall and the cube with \<^verbatim>\<open>imgWidth\<close> and \<^verbatim>\<open>imgHeight\<close>.
\<close>

definition loadSkybox :: "(string \<rightharpoonup> string) \<Rightarrow> receiver \<Rightarrow> string list \<Rightarrow> images \<Rightarrow> images option" where
  "loadSkybox fs obj files st =
     do {
       (ds, st1) \<leftarrow> loadFaces fs files st;
       Some (st1\<lparr>uploads := uploads st1 @ [loadBoxTexture obj ds (imgWidth st1) (imgWidth st1)]\<rparr>)
     }"

definition loadWall :: "(string \<rightharpoonup> string) \<Rightarrow> receiver \<Rightarrow> string \<Rightarrow> images \<Rightarrow> images option" where
  "loadWall fs obj name st =
     do {
       (d, st1) \<leftarrow> load fs name st;
       Some (st1\<lparr>uploads := uploads st1 @ [loadQuadTexture obj d (imgWidth st1) (imgHeight st1)]\<rparr>)
     }"

definition loadCube :: "(string \<rightharpoonup> string) \<Rightarrow> images \<Rightarrow> images option" where
  "loadCube fs st =
     do {
       (d, st1) \<leftarrow> load fs ''../Project3-Assets/vr_test_pattern.ppm'' st;
       Some (st1\<lparr>imgData := d,
                 uploads := uploads st1 @
                   [loadBoxTexture Obj_box (replicate 6 d) (imgWidth st1) (imgHeight st1)]\<rparr>)
     }"

text \<open>Lines 825-871 in order.\<close>

definition loadTextures :: "(string \<rightharpoonup> string) \<Rightarrow> images \<Rightarrow> images option" where
  "loadTextures fs st =
     do {
       st1 \<leftarrow> loadCube fs st;
       st2 \<leftarrow> loadSkybox fs Obj_skybox
         [''../Project3-Assets/left-ppm/px.ppm'', ''../Project3-Assets/left-ppm/nx.ppm'',
          ''../Project3-Assets/left-ppm/py.ppm'', ''../Project3-Assets/left-ppm/ny.ppm'',
          ''../Project3-Assets/left-ppm/pz.ppm'', ''../Project3-Assets/left-ppm/nz.ppm''] st1;
       st3 \<leftarrow> loadSkybox fs Obj_skybox
         [''../Project3-Assets/right-ppm/px.ppm'', ''../Project3-Assets/right-ppm/nx.ppm'',
          ''../Project3-Assets/right-ppm/py.ppm'', ''../Project3-Assets/right-ppm/ny.ppm'',
          ''../Project3-Assets/right-ppm/pz.ppm'', ''../Project3-Assets/right-ppm/nz.ppm''] st2;
       st4 \<leftarrow> loadSkybox fs Obj_biggerSkyBox
         [''../Project3-Assets/bsk/SunSetLeft2048.ppm'', ''../Project3-Assets/bsk/SunSetRight2048.ppm'',
          ''../Project3-Assets/bsk/SunSetUp2048.ppm'', ''../Project3-Assets/bsk/SunSetDown2048.ppm'',
          ''../Project3-Assets/bsk/SunSetFront2048.ppm'', ''../Project3-Assets/bsk/SunSetBack2048.ppm''] st3;
       st5 \<leftarrow> loadWall fs Obj_leftwall ''../Project3-Assets/left-ppm/nx.ppm'' st4;
       st6 \<leftarrow> loadWall fs Obj_leftwall ''../Project3-Assets/right-ppm/nx.ppm'' st5;
       st7 \<leftarrow> loadWall fs Obj_rightwall ''../Project3-Assets/left-ppm/pz.ppm'' st6;
       st8 \<leftarrow> loadWall fs Obj_rightwall ''../Project3-Assets/right-ppm/pz.ppm'' st7;
       st9 \<leftarrow> loadWall fs Obj_floor ''../Project3-Assets/left-ppm/ny.ppm'' st8;
       loadWall fs Obj_floor ''../Project3-Assets/right-ppm/ny.ppm'' st9
     }"

text \<open>
  A file system in which none of the files opens, the members before the constructor
  runs, and a small file for testing the reader: the header \<^verbatim>\<open>P6\<close>, a comment, a picture
  of 2 by 1 pixels, the maximal value 255 and six bytes of pixels.
\<close>

definition noFiles :: "string \<rightharpoonup> string" where
  "noFiles = (\<lambda>name. None)"

definition noImages :: images where
  "noImages = \<lparr> imgData = None, imgWidth = 0, imgHeight = 0, uploads = [] \<rparr>"

definition tinyPPM :: string where
  "tinyPPM = ''P6'' @ [CHR 0x0A] @ ''# made by hand'' @ [CHR 0x0A] @ ''2 1'' @ [CHR 0x0A]
     @ ''255'' @ [CHR 0x0A] @ ''abcdef''"

text \<open>The uploads of a start at which no file opens: every image pointer is null, every size 0.\<close>

definition nullUploads :: "upload list" where
  "nullUploads =
     [loadBoxTexture Obj_box [None, None, None, None, None, None] 0 0,
      loadBoxTexture Obj_skybox [None, None, None, None, None, None] 0 0,
      loadBoxTexture Obj_skybox [None, None, None, None, None, None] 0 0,
      loadBoxTexture Obj_biggerSkyBox [None, None, None, None, None, None] 0 0,
      loadQuadTexture Obj_leftwall None 0 0,
      loadQuadTexture Obj_leftwall None 0 0,
      loadQuadTexture Obj_rightwall None 0 0,
      loadQuadTexture Obj_rightwall None 0 0,
      loadQuadTexture Obj_floor None 0 0,
      loadQuadTexture Obj_floor None 0 0]"

section \<open>Example inputs\<close>

text \<open>
  Concrete arguments of \<^verbatim>\<open>render\<close> for the examples: quads with the vertices
  (-1,-1,0), (1,-1,0), (1,1,0), (-1,1,0), an input state with a given button mask and
  the sticks and triggers at rest, and a call for the left eye with the head at a given
  position.
\<close>

definition exampleEnv :: env where
  "exampleEnv =
     \<lparr> leftwall_vertices = (Vec3 (- 1) (- 1) 0, Vec3 1 (- 1) 0, Vec3 1 1 0, Vec3 (- 1) 1 0),
       rightwall_vertices = (Vec3 (- 1) (- 1) 0, Vec3 1 (- 1) 0, Vec3 1 1 0, Vec3 (- 1) 1 0),
       floor_vertices = (Vec3 (- 1) (- 1) 0, Vec3 1 (- 1) 0, Vec3 1 1 0, Vec3 (- 1) 1 0),
       inverse4 = transpose4 \<rparr>"

definition exampleInput :: "32 word \<Rightarrow> ovrInputState" where
  "exampleInput b = \<lparr> Buttons = b, Thumbstick = (\<lambda>h. Vec2 0 0), HandTrigger = (\<lambda>h. 0) \<rparr>"

definition examplePose :: "vec3 \<Rightarrow> ovrPosef" where
  "examplePose p = \<lparr> Orientation = Quat 0 0 0 1, Position = p \<rparr>"

definition exampleArgs :: "ovrInputState option \<Rightarrow> ovrInputState option \<Rightarrow> vec3 \<Rightarrow> renderArgs" where
  "exampleArgs q1 q2 headPos =
     \<lparr> projection = mat4_1, modelview = mat4_1, eye = ovrEye_Left,
       RenderPose = (\<lambda>e. examplePose headPos),
       checkInputQuery = q1, handPoseRight = examplePose (Vec3 0 0 0), triggerQuery = q2 \<rparr>"

text \<open>The buttons A, B and X held together: the mask 0x103.\<close>

definition heldABX :: renderArgs where
  "heldABX = exampleArgs (Some (exampleInput 0x103)) None (Vec3 0 0 0)"

text \<open>The first vertex of the left wall, in the world.\<close>

definition leftWallCorner :: vec3 where
  "leftWallCorner = vec3_of (mulv leftTransform (vec4_of (Vec3 (- 1) (- 1) 0) 1))"

text \<open>Calls in which button B is pressed while the head is at (1,2,3), for either eye.\<close>

definition pressB :: renderArgs where
  "pressB = exampleArgs (Some (exampleInput 0x002)) None (Vec3 1 2 3)"

definition pressB_right :: renderArgs where
  "pressB_right = pressB\<lparr>eye := ovrEye_Right\<rparr>"

text \<open>A call in which the device answers no input query and the head is at that corner of the left wall.\<close>

definition headAtCorner :: renderArgs where
  "headAtCorner = exampleArgs None None leftWallCorner"


definition moveHead :: renderArgs where
  "moveHead =
     (exampleArgs (Some (exampleInput 0)) None (Vec3 1 2 3))
       \<lparr>modelview := translate mat4_1 (Vec3 (- 1) (- 2) (- 3))\<rparr>"

definition turnedPose :: ovrPosef where
  "turnedPose = \<lparr> Orientation = Quat 0 1 0 0, Position = Vec3 4 5 6 \<rparr>"

definition turnedView :: mat4 where
  "turnedView = Mat4 (Vec4 (- 1) 0 0 0) (Vec4 0 1 0 0) (Vec4 0 0 (- 1) 0) (Vec4 4 (- 5) 6 1)"

definition turnHead :: renderArgs where
  "turnHead =
     (exampleArgs (Some (exampleInput 0x002)) None (Vec3 0 0 0))
       \<lparr>modelview := turnedView, RenderPose := (\<lambda>e. turnedPose)\<rparr>"

definition lookedPose :: ovrPosef where
  "lookedPose = \<lparr> Orientation = Quat 1 0 0 0, Position = Vec3 7 8 9 \<rparr>"

definition lookedView :: mat4 where
  "lookedView = Mat4 (Vec4 1 0 0 0) (Vec4 0 (- 1) 0 0) (Vec4 0 0 (- 1) 0) (Vec4 (- 7) 8 9 1)"

definition lookBack :: renderArgs where
  "lookBack =
     (exampleArgs (Some (exampleInput 0)) None (Vec3 0 0 0))
       \<lparr>modelview := lookedView, RenderPose := (\<lambda>e. lookedPose)\<rparr>"


section \<open>Notions used in the statements\<close>

text \<open>
  The definitions of this section are not code of the program. They name what the
  statements below talk about; each is tied to the program by a lemma.

  \<open>buttonSeen b a\<close> is what the call \<open>a\<close> of \<^verbatim>\<open>render\<close> learns of the button \<open>b\<close>: nothing
  when the device did not answer, else whether its bit is set. \<open>brokenAfter q s b\<close> is the
  value of the flag \<^verbatim>\<open>broken\<close> after \<^verbatim>\<open>checkInput\<close> when it was \<open>b\<close> before.
\<close>

definition buttonSeen :: "32 word \<Rightarrow> renderArgs \<Rightarrow> bool option" where
  "buttonSeen b a = map_option (\<lambda>i. Buttons i AND b \<noteq> 0) (checkInputQuery a)"

definition brokenAfter :: "ovrInputState option \<Rightarrow> scene \<Rightarrow> bool \<Rightarrow> bool" where
  "brokenAfter q s b =
     (case q of
        None \<Rightarrow> b
      | Some i \<Rightarrow> if Buttons i AND ovrButton_X \<noteq> 0 \<and> \<not> X_down s then \<not> b else b)"

text \<open>
  The projection and the view matrices of the draw calls into the textures of the
  surfaces, and the view matrices of the draw calls of the walls into the eye buffer.
\<close>

definition passProjections :: "draw list \<Rightarrow> mat4 option list" where
  "passProjections ds = map uProjection (filter (\<lambda>d. target d \<noteq> Hmd_fbo) ds)"





text \<open>
  The position that lines 1016-1032 store for the eye of the call when the tracking flag
  is set, and the three matrices that lines 1033-1108 compute for an eye position.
\<close>

definition trackedEye :: "renderArgs \<Rightarrow> bool \<Rightarrow> vec3" where
  "trackedEye a fromController =
     (if fromController
      then (case eye a of
              ovrEye_Left \<Rightarrow> sub3 (Position (handPoseRight a)) (Vec3 0.0325 0 0)
            | ovrEye_Right \<Rightarrow> add3 (Position (handPoseRight a)) (Vec3 0.0325 0 0))
      else Position (RenderPose a (eye a)))"

definition wallFrusta :: "env \<Rightarrow> vec3 \<Rightarrow> mat4 option list" where
  "wallFrusta env e =
     [quadProjection (transformVerts leftTransform (leftwall_vertices env)) e,
      quadProjection (transformVerts rightTransform (rightwall_vertices env)) e,
      quadProjection (transformVerts floorTransform (floor_vertices env)) e]"

section \<open>Properties of the off-axis frustum\<close>

subsection \<open>Vector algebra\<close>

lemma dot_commute: "dot a b = dot b a"
  by (cases a; cases b) simp

lemma dot_add3_right: "dot a (add3 b c) = dot a b + dot a c"
  by (cases a; cases b; cases c) (simp add: algebra_simps)

lemma dot_smul3_left: "dot (smul3 a s) b = s * dot a b"
  by (cases a; cases b) (simp add: algebra_simps)

lemma dot_smul3_right: "dot a (smul3 b s) = s * dot a b"
  by (cases a; cases b) (simp add: algebra_simps)

lemma dot_cross_left: "dot (cross a b) a = 0"
  by (cases a; cases b) (simp add: algebra_simps)

lemma dot_cross_right: "dot (cross a b) b = 0"
  by (cases a; cases b) (simp add: algebra_simps)

lemma dot_self_nonneg: "0 \<le> dot a a"
  by (cases a) simp

lemma sub3_via: "sub3 p e = add3 (sub3 q e) (sub3 p q)"
  by (cases p; cases q; cases e) simp

lemma mulv_mat_mul: "mulv (mat_mul A B) v = mulv A (mulv B v)"
  apply (cases A; cases B; cases v)
  subgoal for a0 a1 a2 a3 b0 b1 b2 b3
    by (cases a0; cases a1; cases a2; cases a3; cases b0; cases b1; cases b2; cases b3)
       (simp add: algebra_simps)
  done

lemma mulv_eyeTranslation: "mulv (eyeTranslation e) (vec4_of p 1) = vec4_of (sub3 p e) 1"
  by (cases e; cases p) (simp add: eyeTranslation_def mat4_1_def)

lemma mulv_basisMatrix:
  "mulv (basisMatrix (vr, vu, vn)) (vec4_of d 1) = Vec4 (dot vr d) (dot vu d) (dot vn d) 1"
  by (cases vr; cases vu; cases vn; cases d) (simp add: mat4_1_def)

lemma normalize_SomeD:
  assumes "normalize v = Some u"
  shows "dot v v \<noteq> 0" and "u = smul3 v (1 / sqrt (dot v v))"
  using assms by (auto simp: normalize_def split: if_splits)

lemma planeDist_SomeD:
  assumes "planeDist (p0, p1, p2, p3) e = Some d"
  obtains vr vu vn where "screenBasis (p0, p1, p2, p3) = Some (vr, vu, vn)"
    and "d = - dot vn (sub3 p0 e)"
  using assms by (auto split: Option.bind_splits)

lemma frustum_Some:
  assumes "r \<noteq> l" "t \<noteq> b" "f \<noteq> n"
  shows "frustum l r b t n f =
    Some (Mat4 (Vec4 (2 * n / (r - l)) 0 0 0) (Vec4 0 (2 * n / (t - b)) 0 0)
      (Vec4 ((r + l) / (r - l)) ((t + b) / (t - b)) (- (f + n) / (f - n)) (- 1))
      (Vec4 0 0 (- (2 * f * n) / (f - n)) 0))"
  using assms by (simp add: frustum_def fdiv_def)

lemma sqrt_16_25: "sqrt (16 / 25) = 4 / 5"
  by (simp add: real_sqrt_divide)

subsection \<open>The basis of a rectangle\<close>

text \<open>
  When the two tangents of the surface are at a right angle, \<^verbatim>\<open>vr\<close> and \<^verbatim>\<open>vu\<close> measure
  the two sides of the surface and \<^verbatim>\<open>vn\<close> is at a right angle to both.
\<close>

lemma rectangle_basis:
  assumes sb: "screenBasis (p0, p1, p2, p3) = Some (vr, vu, vn)"
    and orth: "dot (sub3 p1 p0) (sub3 p3 p0) = 0"
  shows "dot vr (sub3 p1 p0) = sqrt (dot (sub3 p1 p0) (sub3 p1 p0))"
    and "dot vu (sub3 p3 p0) = sqrt (dot (sub3 p3 p0) (sub3 p3 p0))"
    and "dot vr (sub3 p3 p0) = 0"
    and "dot vu (sub3 p1 p0) = 0"
    and "dot vn (sub3 p1 p0) = 0"
    and "dot vn (sub3 p3 p0) = 0"
    and "0 < sqrt (dot (sub3 p1 p0) (sub3 p1 p0))"
    and "0 < sqrt (dot (sub3 p3 p0) (sub3 p3 p0))"
proof -
  define a where "a = sub3 p1 p0"
  define c where "c = sub3 p3 p0"
  from sb obtain nr: "normalize a = Some vr" and nu: "normalize c = Some vu"
    and nn: "normalize (cross vr vu) = Some vn"
    by (auto simp: a_def c_def split: Option.bind_splits)
  note r = normalize_SomeD[OF nr] and u = normalize_SomeD[OF nu] and n = normalize_SomeD[OF nn]
  have apos: "0 < dot a a" and cpos: "0 < dot c c"
    using r(1) u(1) dot_self_nonneg[of a] dot_self_nonneg[of c] by simp_all
  then show "0 < sqrt (dot (sub3 p1 p0) (sub3 p1 p0))"
    and "0 < sqrt (dot (sub3 p3 p0) (sub3 p3 p0))"
    by (simp_all add: a_def c_def)
  show "dot vr (sub3 p1 p0) = sqrt (dot (sub3 p1 p0) (sub3 p1 p0))"
    using apos by (simp add: r(2) dot_smul3_left a_def[symmetric] real_div_sqrt)
  show "dot vu (sub3 p3 p0) = sqrt (dot (sub3 p3 p0) (sub3 p3 p0))"
    using cpos by (simp add: u(2) dot_smul3_left c_def[symmetric] real_div_sqrt)
  show "dot vr (sub3 p3 p0) = 0"
    using orth by (simp add: r(2) dot_smul3_left a_def c_def)
  have orth': "dot c a = 0"
    using orth by (subst dot_commute) (simp add: a_def c_def)
  show "dot vu (sub3 p1 p0) = 0"
    by (simp add: u(2) dot_smul3_left a_def[symmetric] orth')
  have a_vr: "a = smul3 vr (sqrt (dot a a))"
    using apos by (cases a) (simp add: r(2))
  have c_vu: "c = smul3 vu (sqrt (dot c c))"
    using cpos by (cases c) (simp add: u(2))
  have nr0: "dot vn vr = 0" and nu0: "dot vn vu = 0"
    by (simp_all add: n(2) dot_smul3_left dot_cross_left dot_cross_right)
  have "dot vn a = sqrt (dot a a) * dot vn vr"
    by (subst a_vr) (simp only: dot_smul3_right)
  then show "dot vn (sub3 p1 p0) = 0"
    by (simp add: nr0 a_def)
  have "dot vn c = sqrt (dot c c) * dot vn vu"
    by (subst c_vu) (simp only: dot_smul3_right)
  then show "dot vn (sub3 p3 p0) = 0"
    by (simp add: nu0 c_def)
qed

text \<open>
  One coordinate of a corner after the frustum matrix and the division by \<^verbatim>\<open>w\<close>: a corner
  at the offset \<open>x0\<close> along the side lands on -1, one at \<open>x0 + w\<close> on 1.
\<close>

lemma ndc_near_edge:
  fixes x0 w n d :: real
  assumes "0 < d" "0 < w" "0 < n"
  defines "l \<equiv> x0 * n / d" and "r \<equiv> (x0 + w) * n / d"
  shows "(2 * n / (r - l) * x0 + (r + l) / (r - l) * (- d)) / d = - 1"
    and "(2 * n / (r - l) * (x0 + w) + (r + l) / (r - l) * (- d)) / d = 1"
proof -
  have rl: "r - l = w * n / d"
    using assms(1) by (simp add: l_def r_def field_simps)
  have sum: "r + l = (2 * x0 + w) * n / d"
    using assms(1) by (simp add: l_def r_def field_simps)
  show "(2 * n / (r - l) * x0 + (r + l) / (r - l) * (- d)) / d = - 1"
    unfolding rl sum using assms(1-3) by (simp add: field_simps)
  show "(2 * n / (r - l) * (x0 + w) + (r + l) / (r - l) * (- d)) / d = 1"
    unfolding rl sum using assms(1-3) by (simp add: field_simps)
qed

subsection \<open>Claim C1\<close>

text \<open>
  C1 says that for every surface whose four corners lie in one plane and are not
  degenerate, and every eye position in front of the plane (\<^verbatim>\<open>dist > 0\<close>), the matrix
  \<^verbatim>\<open>glm::frustum(l, r, b, t, 0.001, 1000) * M * T\<close> sends the four corners to \<open>x\<close> and \<open>y\<close>
  equal to 1 or -1 after the perspective division. That fails for a surface that is not
  a rectangle. With the eye at (0,0,1), one unit in front of the plane: the kite
  (0,0,0), (1,0,0), (2,2,0), (0,1,0) has its third corner sent to (3,3); the parallelogram
  (0,0,0), (1,0,0), (1.6,0.8,0), (0.6,0.8,0) has only its first corner sent to a corner of
  the image.
\<close>

theorem C1_flat_quad_not_framed:
  "coplanar kiteQuad \<and> nonDegenerate kiteQuad \<and> planeDist kiteQuad (Vec3 0 0 1) = Some 1
   \<and> cornersNDC kiteQuad (Vec3 0 0 1) = Some [(- 1, - 1), (1, - 1), (3, 3), (- 1, 1)]
   \<and> coplanar slantedQuad \<and> nonDegenerate slantedQuad \<and> planeDist slantedQuad (Vec3 0 0 1) = Some 1
   \<and> cornersNDC slantedQuad (Vec3 0 0 1) = Some [(- 1, - 1), (1, 0.2), (2.2, 2.2), (0.2, 1)]"
  by (simp add: kiteQuad_def slantedQuad_def normalize_def fdiv_def frustum_def eyeTranslation_def
      mat4_1_def sqrt_16_25)

text \<open>
  C1, amended: for every surface that is a rectangle (its tangents
  \<^verbatim>\<open>corners[1] - corners[0]\<close> and \<^verbatim>\<open>corners[3] - corners[0]\<close> are at a right angle and
  \<^verbatim>\<open>corners[2]\<close> is the opposite corner \<^verbatim>\<open>corners[1] + corners[3] - corners[0]\<close>) and every eye
  position for which the program's \<^verbatim>\<open>dist\<close> is a number greater than 0, the matrix is
  finite and sends the four corners, in order, to (-1,-1), (1,-1), (1,1) and (-1,1) after
  the perspective division: the surface fills the image exactly, whatever the offset of
  the eye. (Floats are read as real numbers.)
\<close>

theorem C1_rectangle_fills_image:
  assumes orth: "dot (sub3 p1 p0) (sub3 p3 p0) = 0"
    and p2: "p2 = add3 p1 (sub3 p3 p0)"
    and dist: "planeDist (p0, p1, p2, p3) e = Some d"
    and pos: "0 < d"
  shows "cornersNDC (p0, p1, p2, p3) e = Some [(- 1, - 1), (1, - 1), (1, 1), (- 1, 1)]"
proof -
  from dist obtain vr vu vn where sb: "screenBasis (p0, p1, p2, p3) = Some (vr, vu, vn)"
    and d: "d = - dot vn (sub3 p0 e)"
    by (rule planeDist_SomeD)
  note rb = rectangle_basis[OF sb orth]
  define wa where "wa = sqrt (dot (sub3 p1 p0) (sub3 p1 p0))"
  define wc where "wc = sqrt (dot (sub3 p3 p0) (sub3 p3 p0))"
  define x0 where "x0 = dot vr (sub3 p0 e)"
  define y0 where "y0 = dot vu (sub3 p0 e)"
  define l where "l = x0 * 0.001 / d"
  define r where "r = (x0 + wa) * 0.001 / d"
  define b where "b = y0 * 0.001 / d"
  define t where "t = (y0 + wc) * 0.001 / d"
  have wa: "0 < wa" and wc: "0 < wc"
    using rb(7,8) by (simp_all add: wa_def wc_def)
  have e1: "sub3 p1 e = add3 (sub3 p0 e) (sub3 p1 p0)"
    and e3: "sub3 p3 e = add3 (sub3 p0 e) (sub3 p3 p0)"
    by (rule sub3_via)+
  have e2: "sub3 p2 e = add3 (add3 (sub3 p0 e) (sub3 p1 p0)) (sub3 p3 p0)"
    unfolding p2 by (cases p0; cases p1; cases p3; cases e) simp
  have x1: "dot vr (sub3 p1 e) = x0 + wa" and y1: "dot vu (sub3 p1 e) = y0"
    and z1: "dot vn (sub3 p1 e) = - d"
    by (simp_all add: e1 dot_add3_right rb x0_def y0_def wa_def d)
  have x3: "dot vr (sub3 p3 e) = x0" and y3: "dot vu (sub3 p3 e) = y0 + wc"
    and z3: "dot vn (sub3 p3 e) = - d"
    by (simp_all add: e3 dot_add3_right rb x0_def y0_def wc_def d)
  have x2: "dot vr (sub3 p2 e) = x0 + wa" and y2: "dot vu (sub3 p2 e) = y0 + wc"
    and z2: "dot vn (sub3 p2 e) = - d"
    by (simp_all add: e2 dot_add3_right rb x0_def y0_def wa_def wc_def d)
  have z0: "dot vn (sub3 p0 e) = - d"
    by (simp add: d)
  have ext: "frustumExtents (p0, p1, p2, p3) e = Some (l, r, b, t)"
    using pos by (simp add: sb dist fdiv_def x1 y3 l_def r_def b_def t_def x0_def y0_def
        del: screenBasis.simps planeDist.simps)
  have rl: "r \<noteq> l" and tb: "t \<noteq> b"
    using pos wa wc by (simp_all add: l_def r_def b_def t_def field_simps)
  define P where "P = Mat4 (Vec4 (2 * 0.001 / (r - l)) 0 0 0) (Vec4 0 (2 * 0.001 / (t - b)) 0 0)
      (Vec4 ((r + l) / (r - l)) ((t + b) / (t - b)) (- (1000 + 0.001) / (1000 - 0.001)) (- 1))
      (Vec4 0 0 (- (2 * 1000 * 0.001) / (1000 - 0.001)) 0)"
  define PV where "PV = mat_mul (mat_mul P (basisMatrix (vr, vu, vn))) (eyeTranslation e)"
  have qp: "quadProjection (p0, p1, p2, p3) e = Some PV"
  proof -
    have nf: "(1000::real) \<noteq> 0.001" by simp
    show ?thesis
      by (simp only: quadProjection.simps sb ext Option.bind.bind_lunit prod.case
          frustum_Some[OF rl tb nf] P_def PV_def)
  qed
  have img: "ndc_xy (mulv PV (vec4_of p 1))
      = ((2 * 0.001 / (r - l) * dot vr (sub3 p e) + (r + l) / (r - l) * dot vn (sub3 p e))
           / (- dot vn (sub3 p e)),
         (2 * 0.001 / (t - b) * dot vu (sub3 p e) + (t + b) / (t - b) * dot vn (sub3 p e))
           / (- dot vn (sub3 p e)))"
    for p
    by (simp add: PV_def mulv_mat_mul mulv_eyeTranslation mulv_basisMatrix P_def
        del: basisMatrix.simps)
  note nx = ndc_near_edge[OF pos wa, of "0.001" x0, folded l_def r_def]
  note ny = ndc_near_edge[OF pos wc, of "0.001" y0, folded b_def t_def]
  have c0: "ndc_xy (mulv PV (vec4_of p0 1)) = (- 1, - 1)"
    unfolding img z0 x0_def[symmetric] y0_def[symmetric] using nx(1) ny(1) by simp
  have c1: "ndc_xy (mulv PV (vec4_of p1 1)) = (1, - 1)"
    unfolding img z1 x1 y1 using nx(2) ny(1) by simp
  have c2: "ndc_xy (mulv PV (vec4_of p2 1)) = (1, 1)"
    unfolding img z2 x2 y2 using nx(2) ny(2) by simp
  have c3: "ndc_xy (mulv PV (vec4_of p3 1)) = (- 1, 1)"
    unfolding img z3 x3 y3 using nx(1) ny(2) by simp
  show ?thesis
    by (simp only: cornersNDC.simps qp Option.bind.bind_lunit list.map c0 c1 c2 c3)
qed

text \<open>The unit square seen from (2,1,5), off its axis, is such a rectangle.\<close>

theorem C1_rectangle_fills_image_witness:
  "dot (sub3 (Vec3 0.5 (- 0.5) 0) (Vec3 (- 0.5) (- 0.5) 0))
       (sub3 (Vec3 (- 0.5) 0.5 0) (Vec3 (- 0.5) (- 0.5) 0)) = 0
   \<and> Vec3 0.5 0.5 0 = add3 (Vec3 0.5 (- 0.5) 0) (sub3 (Vec3 (- 0.5) 0.5 0) (Vec3 (- 0.5) (- 0.5) 0))
   \<and> planeDist unitQuad (Vec3 2 1 5) = Some 5
   \<and> cornersNDC unitQuad (Vec3 2 1 5) = Some [(- 1, - 1), (1, - 1), (1, 1), (- 1, 1)]"
proof -
  have h1: "dot (sub3 (Vec3 0.5 (- 0.5) 0) (Vec3 (- 0.5) (- 0.5) 0))
       (sub3 (Vec3 (- 0.5) 0.5 0) (Vec3 (- 0.5) (- 0.5) 0)) = 0"
    by simp
  have h2: "Vec3 0.5 0.5 0
      = add3 (Vec3 0.5 (- 0.5) 0) (sub3 (Vec3 (- 0.5) 0.5 0) (Vec3 (- 0.5) (- 0.5) 0))"
    by simp
  have h3: "planeDist (Vec3 (- 0.5) (- 0.5) 0, Vec3 0.5 (- 0.5) 0, Vec3 0.5 0.5 0, Vec3 (- 0.5) 0.5 0)
      (Vec3 2 1 5) = Some 5"
    by (simp add: normalize_def)
  have h4: "(0::real) < 5"
    by simp
  show ?thesis
    unfolding unitQuad_def
    using h1 h2 h3 C1_rectangle_fills_image[OF h1 h2 h3 h4] by blast
qed

subsection \<open>Claim C2\<close>

text \<open>
  C2 says that for the unit square around the origin facing +Z and the eye at (0,0,5)
  the extents satisfy left = -right and bottom = top, and that with the eye at (2,0,5)
  the absolute values of left and right differ. The extents for the eye at (0,0,5) are
  left = -0.0001, right = 0.0001, bottom = -0.0001 and top = 0.0001: bottom is not top.
\<close>

theorem C2_bottom_is_not_top:
  "frustumExtents unitQuad (Vec3 0 0 5) = Some (- 0.0001, 0.0001, - 0.0001, 0.0001)
   \<and> (- 0.0001 :: real) \<noteq> 0.0001"
  by (simp add: unitQuad_def normalize_def fdiv_def)

text \<open>
  C2, amended: for the unit square around the origin facing +Z and the eye at (0,0,5)
  the extents satisfy left = -right and bottom = -top (a symmetric frustum); with the
  eye at (2,0,5) the absolute values of left and right differ.
\<close>

theorem C2_symmetric_then_asymmetric:
  "(case frustumExtents unitQuad (Vec3 0 0 5) of
      Some (l, r, b, t) \<Rightarrow> l = - r \<and> b = - t
    | None \<Rightarrow> False)
   \<and> (case frustumExtents unitQuad (Vec3 2 0 5) of
      Some (l, r, b, t) \<Rightarrow> \<bar>l\<bar> \<noteq> \<bar>r\<bar>
    | None \<Rightarrow> False)"
  by (simp add: unitQuad_def normalize_def fdiv_def)

section \<open>Properties of the interaction and of the frame\<close>

subsection \<open>What each block of \<^verbatim>\<open>checkInput\<close> changes\<close>

lemma scaleBox_boxScale:
  "boxScale (scaleBox i s) =
     (if x2 (Thumbstick i ovrHand_Left) \<noteq> 0
         \<and> 0.01 < boxScale s + x2 (Thumbstick i ovrHand_Left) * 0.01
         \<and> boxScale s + x2 (Thumbstick i ovrHand_Left) * 0.01 < 1
      then boxScale s + x2 (Thumbstick i ovrHand_Left) * 0.01
      else boxScale s)"
  by (simp add: scaleBox_def Let_def)

lemma scaleBox_frame:
  "boxtransform (scaleBox i s) = boxtransform s"
  "leftWallVerts (scaleBox i s) = leftWallVerts s"
  "rightWallVerts (scaleBox i s) = rightWallVerts s"
  "floorVerts (scaleBox i s) = floorVerts s"
  "eyePos (scaleBox i s) = eyePos s"
  "quadProjections (scaleBox i s) = quadProjections s"
  "posOnly (scaleBox i s) = posOnly s"
  "B_down (scaleBox i s) = B_down s"
  "A_down (scaleBox i s) = A_down s"
  "X_down (scaleBox i s) = X_down s"
  "track (scaleBox i s) = track s"
  "debug (scaleBox i s) = debug s"
  "broken (scaleBox i s) = broken s"
  "viewFromController (scaleBox i s) = viewFromController s"
  "triggerPressed (scaleBox i s) = triggerPressed s"
  by (simp_all add: scaleBox_def Let_def)

lemma resetScale_boxScale:
  "boxScale (resetScale i s) = (if Buttons i AND ovrButton_LThumb \<noteq> 0 then 0.2 else boxScale s)"
  by (simp add: resetScale_def)

lemma resetScale_frame:
  "boxtransform (resetScale i s) = boxtransform s"
  "leftWallVerts (resetScale i s) = leftWallVerts s"
  "rightWallVerts (resetScale i s) = rightWallVerts s"
  "floorVerts (resetScale i s) = floorVerts s"
  "eyePos (resetScale i s) = eyePos s"
  "quadProjections (resetScale i s) = quadProjections s"
  "posOnly (resetScale i s) = posOnly s"
  "B_down (resetScale i s) = B_down s"
  "A_down (resetScale i s) = A_down s"
  "X_down (resetScale i s) = X_down s"
  "track (resetScale i s) = track s"
  "debug (resetScale i s) = debug s"
  "broken (resetScale i s) = broken s"
  "viewFromController (resetScale i s) = viewFromController s"
  "triggerPressed (resetScale i s) = triggerPressed s"
  by (simp_all add: resetScale_def)

lemma translateBox_frame:
  "boxScale (translateBox i s) = boxScale s"
  "leftWallVerts (translateBox i s) = leftWallVerts s"
  "rightWallVerts (translateBox i s) = rightWallVerts s"
  "floorVerts (translateBox i s) = floorVerts s"
  "eyePos (translateBox i s) = eyePos s"
  "quadProjections (translateBox i s) = quadProjections s"
  "posOnly (translateBox i s) = posOnly s"
  "B_down (translateBox i s) = B_down s"
  "A_down (translateBox i s) = A_down s"
  "X_down (translateBox i s) = X_down s"
  "track (translateBox i s) = track s"
  "debug (translateBox i s) = debug s"
  "broken (translateBox i s) = broken s"
  "viewFromController (translateBox i s) = viewFromController s"
  "triggerPressed (translateBox i s) = triggerPressed s"
  by (simp_all add: translateBox_def)

lemma toggleTrack_track:
  "track (toggleTrack i s) = (if Buttons i AND ovrButton_B \<noteq> 0 \<and> \<not> B_down s then \<not> track s else track s)"
  "B_down (toggleTrack i s) = (Buttons i AND ovrButton_B \<noteq> 0)"
  by (simp_all add: toggleTrack_def Let_def)

lemma toggleTrack_frame:
  "boxtransform (toggleTrack i s) = boxtransform s"
  "boxScale (toggleTrack i s) = boxScale s"
  "leftWallVerts (toggleTrack i s) = leftWallVerts s"
  "rightWallVerts (toggleTrack i s) = rightWallVerts s"
  "floorVerts (toggleTrack i s) = floorVerts s"
  "eyePos (toggleTrack i s) = eyePos s"
  "quadProjections (toggleTrack i s) = quadProjections s"
  "posOnly (toggleTrack i s) = posOnly s"
  "A_down (toggleTrack i s) = A_down s"
  "X_down (toggleTrack i s) = X_down s"
  "debug (toggleTrack i s) = debug s"
  "broken (toggleTrack i s) = broken s"
  "viewFromController (toggleTrack i s) = viewFromController s"
  "triggerPressed (toggleTrack i s) = triggerPressed s"
  by (simp_all add: toggleTrack_def Let_def)

lemma toggleDebug_debug:
  "debug (toggleDebug i s) = (if Buttons i AND ovrButton_A \<noteq> 0 \<and> \<not> A_down s then \<not> debug s else debug s)"
  "A_down (toggleDebug i s) = (Buttons i AND ovrButton_A \<noteq> 0)"
  by (simp_all add: toggleDebug_def Let_def)

lemma toggleDebug_frame:
  "boxtransform (toggleDebug i s) = boxtransform s"
  "boxScale (toggleDebug i s) = boxScale s"
  "leftWallVerts (toggleDebug i s) = leftWallVerts s"
  "rightWallVerts (toggleDebug i s) = rightWallVerts s"
  "floorVerts (toggleDebug i s) = floorVerts s"
  "eyePos (toggleDebug i s) = eyePos s"
  "quadProjections (toggleDebug i s) = quadProjections s"
  "posOnly (toggleDebug i s) = posOnly s"
  "B_down (toggleDebug i s) = B_down s"
  "X_down (toggleDebug i s) = X_down s"
  "track (toggleDebug i s) = track s"
  "broken (toggleDebug i s) = broken s"
  "viewFromController (toggleDebug i s) = viewFromController s"
  "triggerPressed (toggleDebug i s) = triggerPressed s"
  by (simp_all add: toggleDebug_def Let_def)

lemma toggleBroken_broken:
  "broken (toggleBroken i s) = (if Buttons i AND ovrButton_X \<noteq> 0 \<and> \<not> X_down s then \<not> broken s else broken s)"
  "X_down (toggleBroken i s) = (Buttons i AND ovrButton_X \<noteq> 0)"
  by (simp_all add: toggleBroken_def Let_def)

lemma toggleBroken_frame:
  "boxtransform (toggleBroken i s) = boxtransform s"
  "boxScale (toggleBroken i s) = boxScale s"
  "leftWallVerts (toggleBroken i s) = leftWallVerts s"
  "rightWallVerts (toggleBroken i s) = rightWallVerts s"
  "floorVerts (toggleBroken i s) = floorVerts s"
  "eyePos (toggleBroken i s) = eyePos s"
  "quadProjections (toggleBroken i s) = quadProjections s"
  "posOnly (toggleBroken i s) = posOnly s"
  "B_down (toggleBroken i s) = B_down s"
  "A_down (toggleBroken i s) = A_down s"
  "track (toggleBroken i s) = track s"
  "debug (toggleBroken i s) = debug s"
  "viewFromController (toggleBroken i s) = viewFromController s"
  "triggerPressed (toggleBroken i s) = triggerPressed s"
  by (simp_all add: toggleBroken_def Let_def)

lemmas step_frames = scaleBox_frame resetScale_frame translateBox_frame toggleTrack_frame
  toggleDebug_frame toggleBroken_frame

lemma checkInput_None: "checkInput None s = s"
  by (simp add: checkInput_def)

lemma boxScale_checkInput:
  "boxScale (checkInput (Some i) s) =
     (if Buttons i AND ovrButton_LThumb \<noteq> 0 then 0.2
      else if x2 (Thumbstick i ovrHand_Left) \<noteq> 0
              \<and> 0.01 < boxScale s + x2 (Thumbstick i ovrHand_Left) * 0.01
              \<and> boxScale s + x2 (Thumbstick i ovrHand_Left) * 0.01 < 1
           then boxScale s + x2 (Thumbstick i ovrHand_Left) * 0.01
           else boxScale s)"
  by (simp add: checkInput_def step_frames resetScale_boxScale scaleBox_boxScale)

lemma track_checkInput:
  "track (checkInput (Some i) s) = (if Buttons i AND ovrButton_B \<noteq> 0 \<and> \<not> B_down s then \<not> track s else track s)"
  "B_down (checkInput (Some i) s) = (Buttons i AND ovrButton_B \<noteq> 0)"
  by (simp_all add: checkInput_def step_frames toggleTrack_track)

lemma debug_checkInput:
  "debug (checkInput (Some i) s) = (if Buttons i AND ovrButton_A \<noteq> 0 \<and> \<not> A_down s then \<not> debug s else debug s)"
  "A_down (checkInput (Some i) s) = (Buttons i AND ovrButton_A \<noteq> 0)"
  by (simp_all add: checkInput_def step_frames toggleDebug_debug)

lemma broken_checkInput:
  "broken (checkInput (Some i) s) = (if Buttons i AND ovrButton_X \<noteq> 0 \<and> \<not> X_down s then \<not> broken s else broken s)"
  "X_down (checkInput (Some i) s) = (Buttons i AND ovrButton_X \<noteq> 0)"
  by (simp_all add: checkInput_def step_frames toggleBroken_broken)

lemma checkInput_frame:
  "leftWallVerts (checkInput q s) = leftWallVerts s"
  "rightWallVerts (checkInput q s) = rightWallVerts s"
  "floorVerts (checkInput q s) = floorVerts s"
  "eyePos (checkInput q s) = eyePos s"
  "quadProjections (checkInput q s) = quadProjections s"
  "posOnly (checkInput q s) = posOnly s"
  "viewFromController (checkInput q s) = viewFromController s"
  "triggerPressed (checkInput q s) = triggerPressed s"
  by (cases q; simp add: checkInput_def step_frames)+

subsection \<open>What each stage of \<^verbatim>\<open>render\<close> changes\<close>

lemma pollTrigger_frame:
  "boxtransform (pollTrigger q s) = boxtransform s"
  "boxScale (pollTrigger q s) = boxScale s"
  "leftWallVerts (pollTrigger q s) = leftWallVerts s"
  "rightWallVerts (pollTrigger q s) = rightWallVerts s"
  "floorVerts (pollTrigger q s) = floorVerts s"
  "eyePos (pollTrigger q s) = eyePos s"
  "quadProjections (pollTrigger q s) = quadProjections s"
  "posOnly (pollTrigger q s) = posOnly s"
  "B_down (pollTrigger q s) = B_down s"
  "A_down (pollTrigger q s) = A_down s"
  "X_down (pollTrigger q s) = X_down s"
  "track (pollTrigger q s) = track s"
  "debug (pollTrigger q s) = debug s"
  "broken (pollTrigger q s) = broken s"
  by (cases q; simp add: pollTrigger_def Let_def)+

lemma pollTrigger_None:
  "triggerPressed (pollTrigger None s) = triggerPressed s"
  "viewFromController (pollTrigger None s) = triggerPressed s ovrHand_Right"
  by (simp_all add: pollTrigger_def)

lemma sceneView_frame:
  "boxtransform (fst (sceneView env a s)) = boxtransform s"
  "boxScale (fst (sceneView env a s)) = boxScale s"
  "leftWallVerts (fst (sceneView env a s)) = leftWallVerts s"
  "rightWallVerts (fst (sceneView env a s)) = rightWallVerts s"
  "floorVerts (fst (sceneView env a s)) = floorVerts s"
  "eyePos (fst (sceneView env a s)) = eyePos s"
  "quadProjections (fst (sceneView env a s)) = quadProjections s"
  "B_down (fst (sceneView env a s)) = B_down s"
  "A_down (fst (sceneView env a s)) = A_down s"
  "X_down (fst (sceneView env a s)) = X_down s"
  "track (fst (sceneView env a s)) = track s"
  "debug (fst (sceneView env a s)) = debug s"
  "broken (fst (sceneView env a s)) = broken s"
  "viewFromController (fst (sceneView env a s)) = viewFromController s"
  "triggerPressed (fst (sceneView env a s)) = triggerPressed s"
  by (simp_all add: sceneView_def Let_def)



lemma updateEyePos_frame:
  "boxtransform (updateEyePos a s) = boxtransform s"
  "boxScale (updateEyePos a s) = boxScale s"
  "leftWallVerts (updateEyePos a s) = leftWallVerts s"
  "rightWallVerts (updateEyePos a s) = rightWallVerts s"
  "floorVerts (updateEyePos a s) = floorVerts s"
  "quadProjections (updateEyePos a s) = quadProjections s"
  "posOnly (updateEyePos a s) = posOnly s"
  "B_down (updateEyePos a s) = B_down s"
  "A_down (updateEyePos a s) = A_down s"
  "X_down (updateEyePos a s) = X_down s"
  "track (updateEyePos a s) = track s"
  "debug (updateEyePos a s) = debug s"
  "broken (updateEyePos a s) = broken s"
  "viewFromController (updateEyePos a s) = viewFromController s"
  "triggerPressed (updateEyePos a s) = triggerPressed s"
  by (simp_all add: updateEyePos_def split: ovrEyeType.split)

lemma updateEyePos_eyePos:
  "eyePos (updateEyePos a s) =
     (if track s
      then (eyePos s)(eye a :=
             (if viewFromController s
              then (case eye a of
                      ovrEye_Left \<Rightarrow> sub3 (Position (handPoseRight a)) (Vec3 0.0325 0 0)
                    | ovrEye_Right \<Rightarrow> add3 (Position (handPoseRight a)) (Vec3 0.0325 0 0))
              else Position (RenderPose a (eye a))))
      else eyePos s)"
  by (simp add: updateEyePos_def split: ovrEyeType.split)

lemma updateFrusta_frame:
  "boxtransform (updateFrusta env a s) = boxtransform s"
  "boxScale (updateFrusta env a s) = boxScale s"
  "eyePos (updateFrusta env a s) = eyePos s"
  "posOnly (updateFrusta env a s) = posOnly s"
  "B_down (updateFrusta env a s) = B_down s"
  "A_down (updateFrusta env a s) = A_down s"
  "X_down (updateFrusta env a s) = X_down s"
  "track (updateFrusta env a s) = track s"
  "debug (updateFrusta env a s) = debug s"
  "broken (updateFrusta env a s) = broken s"
  "viewFromController (updateFrusta env a s) = viewFromController s"
  "triggerPressed (updateFrusta env a s) = triggerPressed s"
  by (simp_all add: updateFrusta_def Let_def)

lemma updateFrusta_walls:
  "leftWallVerts (updateFrusta env a s) = transformVerts leftTransform (leftwall_vertices env)"
  "rightWallVerts (updateFrusta env a s) = transformVerts rightTransform (rightwall_vertices env)"
  "floorVerts (updateFrusta env a s) = transformVerts floorTransform (floor_vertices env)"
  "quadProjections (updateFrusta env a s) =
     [quadProjection (transformVerts leftTransform (leftwall_vertices env)) (eyePos s (eye a)),
      quadProjection (transformVerts rightTransform (rightwall_vertices env)) (eyePos s (eye a)),
      quadProjection (transformVerts floorTransform (floor_vertices env)) (eyePos s (eye a))]"
  by (simp_all add: updateFrusta_def Let_def)

lemma fst_render:
  "fst (render env a s) =
     updateFrusta env a (updateEyePos a (fst (sceneView env a
       (pollTrigger (triggerQuery a) (checkInput (checkInputQuery a) s)))))"
  by (simp add: render_def Let_def split: prod.split)

lemma snd_render:
  "snd (render env a s) =
     \<lparr> prog = shaderProg, mesh = BiggerSkyBox, target = Hmd_fbo,
       uProjection = Some (projection a), uModelview = modelview a,
       uTransform = scale mat4_1 (Vec3 20 20 20),
       uColor = None, uBroken = None, tex = Some texture_biggerskybox \<rparr>
     # surfacePasses a (fst (render env a s))
         (snd (sceneView env a (pollTrigger (triggerQuery a) (checkInput (checkInputQuery a) s))))
     @ compositor a (fst (render env a s)) @ wireframes a (fst (render env a s))"
  by (simp add: render_def Let_def split: prod.split)

lemmas render_frames = pollTrigger_frame sceneView_frame updateEyePos_frame updateFrusta_frame

lemma render_checkInput_fields:
  "boxtransform (fst (render env a s)) = boxtransform (checkInput (checkInputQuery a) s)"
  "boxScale (fst (render env a s)) = boxScale (checkInput (checkInputQuery a) s)"
  "B_down (fst (render env a s)) = B_down (checkInput (checkInputQuery a) s)"
  "A_down (fst (render env a s)) = A_down (checkInput (checkInputQuery a) s)"
  "X_down (fst (render env a s)) = X_down (checkInput (checkInputQuery a) s)"
  "track (fst (render env a s)) = track (checkInput (checkInputQuery a) s)"
  "debug (fst (render env a s)) = debug (checkInput (checkInputQuery a) s)"
  "broken (fst (render env a s)) = broken (checkInput (checkInputQuery a) s)"
  by (simp_all add: fst_render render_frames)

lemma length_draws:
  "length (snd (render env a s)) = (if debug (fst (render env a s)) then 13 else 10)"
  by (simp add: snd_render surfacePasses_def surfacePass_def compositor_def wireframes_def)

lemma render_stage_flags:
  "track (pollTrigger (triggerQuery a) (checkInput (checkInputQuery a) s)) = track (fst (render env a s))"
  "viewFromController (pollTrigger (triggerQuery a) (checkInput (checkInputQuery a) s))
     = viewFromController (fst (render env a s))"
  by (simp_all add: fst_render render_frames)

lemma render_eyePos:
  "eyePos (fst (render env a s)) =
     (if track (fst (render env a s))
      then (eyePos s)(eye a := trackedEye a (viewFromController (fst (render env a s))))
      else eyePos s)"
  unfolding render_stage_flags[symmetric, where a=a and s=s and env=env]
  by (simp add: fst_render render_frames updateEyePos_eyePos checkInput_frame trackedEye_def)


lemma render_quadProjections:
  "quadProjections (fst (render env a s)) = wallFrusta env (eyePos (fst (render env a s)) (eye a))"
  by (simp add: fst_render updateFrusta_walls updateFrusta_frame wallFrusta_def)


lemma render_passProjections:
  "passProjections (snd (render env a s)) =
     [quadProjections (fst (render env a s)) ! 0, quadProjections (fst (render env a s)) ! 0,
      quadProjections (fst (render env a s)) ! 1, quadProjections (fst (render env a s)) ! 1,
      quadProjections (fst (render env a s)) ! 2, quadProjections (fst (render env a s)) ! 2]"
  by (simp add: passProjections_def snd_render surfacePasses_def surfacePass_def compositor_def
      wireframes_def)









lemma held_buttonSeen: "held b a \<longleftrightarrow> buttonSeen b a = Some True"
  by (auto simp: held_def buttonSeen_def split: option.split)

lemma released_buttonSeen: "\<not> released b a \<longleftrightarrow> buttonSeen b a \<noteq> Some False"
  by (auto simp: released_def buttonSeen_def split: option.split)

lemma render_debug:
  "debug (fst (render env a s)) =
     (case buttonSeen ovrButton_A a of None \<Rightarrow> debug s | Some b \<Rightarrow> if b \<and> \<not> A_down s then \<not> debug s else debug s)"
  "A_down (fst (render env a s)) = (case buttonSeen ovrButton_A a of None \<Rightarrow> A_down s | Some b \<Rightarrow> b)"
  by (cases "checkInputQuery a";
      simp add: render_checkInput_fields checkInput_None debug_checkInput buttonSeen_def)+

lemma render_track:
  "track (fst (render env a s)) =
     (case buttonSeen ovrButton_B a of None \<Rightarrow> track s | Some b \<Rightarrow> if b \<and> \<not> B_down s then \<not> track s else track s)"
  "B_down (fst (render env a s)) = (case buttonSeen ovrButton_B a of None \<Rightarrow> B_down s | Some b \<Rightarrow> b)"
  by (cases "checkInputQuery a";
      simp add: render_checkInput_fields checkInput_None track_checkInput buttonSeen_def)+

lemma render_broken:
  "broken (fst (render env a s)) =
     (case buttonSeen ovrButton_X a of None \<Rightarrow> broken s | Some b \<Rightarrow> if b \<and> \<not> X_down s then \<not> broken s else broken s)"
  "X_down (fst (render env a s)) = (case buttonSeen ovrButton_X a of None \<Rightarrow> X_down s | Some b \<Rightarrow> b)"
  by (cases "checkInputQuery a";
      simp add: render_checkInput_fields checkInput_None broken_checkInput buttonSeen_def)+

subsection \<open>The example calls\<close>

lemma heldABX_held:
  "held ovrButton_A heldABX" "held ovrButton_B heldABX" "held ovrButton_X heldABX"
  by (simp_all add: held_def heldABX_def exampleArgs_def exampleInput_def
      ovrButton_A_def ovrButton_B_def ovrButton_X_def)

lemma heldABX_seen:
  "buttonSeen ovrButton_A heldABX = Some True"
  "buttonSeen ovrButton_B heldABX = Some True"
  "buttonSeen ovrButton_X heldABX = Some True"
  using heldABX_held by (simp_all add: held_buttonSeen)

lemma pressB_seen:
  "buttonSeen ovrButton_B pressB = Some True"
  "buttonSeen ovrButton_B pressB_right = Some True"
  by (simp_all add: buttonSeen_def pressB_def pressB_right_def exampleArgs_def exampleInput_def
      ovrButton_B_def)

lemma pressB_untracked:
  "\<not> track (fst (render exampleEnv pressB initScene))"
  "\<not> track (fst (render exampleEnv pressB_right (fst (render exampleEnv pressB initScene))))"
  by (simp_all add: render_track pressB_seen initScene_def)

text \<open>The views of the three calls are the inverses of the poses of the head.\<close>

lemma example_views_inverse:
  "mat_mul (modelview moveHead) (toGlm (RenderPose moveHead ovrEye_Left)) = mat4_1"
  "mat_mul (modelview turnHead) (toGlm (RenderPose turnHead ovrEye_Left)) = mat4_1"
  "mat_mul (modelview lookBack) (toGlm (RenderPose lookBack ovrEye_Left)) = mat4_1"
  by (simp_all add: moveHead_def turnHead_def lookBack_def turnedView_def turnedPose_def
      lookedView_def lookedPose_def toGlm_def mat4_1_def exampleArgs_def examplePose_def)





subsection \<open>Claim C3\<close>

lemma boxScale_render:
  "boxScale (fst (render env a s)) =
     (case checkInputQuery a of
        None \<Rightarrow> boxScale s
      | Some i \<Rightarrow>
          if Buttons i AND ovrButton_LThumb \<noteq> 0 then 0.2
          else if x2 (Thumbstick i ovrHand_Left) \<noteq> 0
                  \<and> 0.01 < boxScale s + x2 (Thumbstick i ovrHand_Left) * 0.01
                  \<and> boxScale s + x2 (Thumbstick i ovrHand_Left) * 0.01 < 1
               then boxScale s + x2 (Thumbstick i ovrHand_Left) * 0.01
               else boxScale s)"
  by (cases "checkInputQuery a")
     (simp_all add: render_checkInput_fields checkInput_None boxScale_checkInput)

lemma boxScale_render_inv:
  assumes "0.01 < boxScale s" "boxScale s < 1"
  shows "0.01 < boxScale (fst (render env a s)) \<and> boxScale (fst (render env a s)) < 1"
  using assms by (simp add: boxScale_render split: option.split)

lemma boxScale_run_inv:
  "0.01 < boxScale s \<Longrightarrow> boxScale s < 1 \<Longrightarrow>
   0.01 < boxScale (run env s as) \<and> boxScale (run env s as) < 1"
proof (induction as arbitrary: s)
  case Nil
  then show ?case by simp
next
  case (Cons a as)
  have inv: "0.01 < boxScale (fst (render env a s)) \<and> boxScale (fst (render env a s)) < 1"
    by (rule boxScale_render_inv[OF Cons.prems])
  have "0.01 < boxScale (run env (fst (render env a s)) as)
      \<and> boxScale (run env (fst (render env a s)) as) < 1"
    using inv by (intro Cons.IH) simp_all
  then show ?case
    by (simp only: run.simps)
qed

text \<open>
  C3: for every sequence of controller input frames, the scale \<^verbatim>\<open>boxScale\<close> of the box
  never leaves the interval from 0.01 (included) to 1.0 (excluded). It starts at 0.2;
  a sideways movement of the left thumbstick adds \<^verbatim>\<open>thumbstick.x * 0.01\<close> only if the
  result lies strictly between 0.01 and 1.0; a press of the left thumbstick resets it to
  exactly 0.2. A frame in which the device does not answer leaves it as it is.
\<close>

theorem C3_boxScale_stays_in_bounds:
  "boxScale initScene = 0.2
   \<and> boxScale (run env initScene as) \<in> {0.01 ..< 1}
   \<and> boxScale (fst (render env a s)) =
       (case checkInputQuery a of
          None \<Rightarrow> boxScale s
        | Some i \<Rightarrow>
            if Buttons i AND ovrButton_LThumb \<noteq> 0 then 0.2
            else if x2 (Thumbstick i ovrHand_Left) \<noteq> 0
                    \<and> 0.01 < boxScale s + x2 (Thumbstick i ovrHand_Left) * 0.01
                    \<and> boxScale s + x2 (Thumbstick i ovrHand_Left) * 0.01 < 1
                 then boxScale s + x2 (Thumbstick i ovrHand_Left) * 0.01
                 else boxScale s)"
proof -
  have i: "boxScale initScene = 0.2"
    by (simp add: initScene_def)
  have "0.01 < boxScale (run env initScene as) \<and> boxScale (run env initScene as) < 1"
    by (rule boxScale_run_inv) (simp_all add: i)
  then show ?thesis
    using i boxScale_render[of env a s] by simp
qed

subsection \<open>Claim C4\<close>

text \<open>
  An edge trigger in general: a flag \<open>f\<close> with a latch \<open>l\<close>, where a call that sees the
  button pressed flips the flag unless the latch is set, and every call that the device
  answers sets the latch to what it saw.
\<close>

lemma flips_held_once:
  fixes f l :: "scene \<Rightarrow> bool" and p :: "renderArgs \<Rightarrow> bool option"
  assumes f: "\<And>a s. f (fst (render env a s)) =
       (case p a of None \<Rightarrow> f s | Some b \<Rightarrow> if b \<and> \<not> l s then \<not> f s else f s)"
    and l: "\<And>a s. l (fst (render env a s)) = (case p a of None \<Rightarrow> l s | Some b \<Rightarrow> b)"
  shows "(\<forall>a\<in>set as. p a \<noteq> Some False) \<Longrightarrow> l s \<Longrightarrow> flips f s (trace env s as) = 0"
    and "(\<forall>a\<in>set as. p a = Some True) \<Longrightarrow> as \<noteq> [] \<Longrightarrow> \<not> l s \<Longrightarrow> flips f s (trace env s as) = 1"
proof -
  show latched: "(\<forall>a\<in>set as. p a \<noteq> Some False) \<Longrightarrow> l s \<Longrightarrow> flips f s (trace env s as) = 0"
    for as s
  proof (induction as arbitrary: s)
    case Nil
    then show ?case by simp
  next
    case (Cons a as)
    from Cons.prems have pa: "p a \<noteq> Some False" and rest: "\<forall>a\<in>set as. p a \<noteq> Some False"
      by simp_all
    have l': "l (fst (render env a s))"
      using pa Cons.prems(2) by (auto simp: l split: option.split)
    have f': "f (fst (render env a s)) = f s"
      using Cons.prems(2) by (simp add: f split: option.split)
    show ?case
      using Cons.IH[OF rest l'] f' by simp
  qed
  assume all: "\<forall>a\<in>set as. p a = Some True" and ne: "as \<noteq> []" and nl: "\<not> l s"
  from ne obtain a as' where as: "as = a # as'"
    by (cases as) auto
  from all as have pa: "p a = Some True" and rest: "\<forall>a\<in>set as'. p a \<noteq> Some False"
    by auto
  have l': "l (fst (render env a s))"
    by (simp add: l pa)
  have f': "f (fst (render env a s)) \<noteq> f s"
    using nl by (simp add: f pa)
  show "flips f s (trace env s as) = 1"
    using latched[OF rest l'] f' by (simp add: as)
qed

lemma run_latch:
  fixes l :: "scene \<Rightarrow> bool" and p :: "renderArgs \<Rightarrow> bool option"
  assumes l: "\<And>a s. l (fst (render env a s)) = (case p a of None \<Rightarrow> l s | Some b \<Rightarrow> b)"
  shows "(\<forall>a\<in>set as. p a = Some True) \<Longrightarrow> as \<noteq> [] \<Longrightarrow> l (run env s as)"
proof (induction as arbitrary: s)
  case Nil
  then show ?case by simp
next
  case (Cons a as)
  show ?case
  proof (cases as)
    case Nil
    with Cons.prems show ?thesis by (simp add: l)
  next
    case (Cons b bs)
    with Cons.prems Cons.IH[of "fst (render env a s)"] show ?thesis by simp
  qed
qed

text \<open>
  C4: for each of the buttons A (debug), B (track) and X (broken), holding the button
  over any number of consecutive calls of \<^verbatim>\<open>render\<close>, from a state in which its latch is
  not set, changes the flag exactly once and leaves the latch set; and once the latch is
  set, the flag does not change again as long as no call sees the button released.
\<close>

theorem C4_edge_trigger:
  "(as \<noteq> [] \<and> (\<forall>a\<in>set as. held ovrButton_A a) \<and> \<not> A_down s
      \<longrightarrow> flips debug s (trace env s as) = 1 \<and> A_down (run env s as))
   \<and> (as \<noteq> [] \<and> (\<forall>a\<in>set as. held ovrButton_B a) \<and> \<not> B_down s
      \<longrightarrow> flips track s (trace env s as) = 1 \<and> B_down (run env s as))
   \<and> (as \<noteq> [] \<and> (\<forall>a\<in>set as. held ovrButton_X a) \<and> \<not> X_down s
      \<longrightarrow> flips broken s (trace env s as) = 1 \<and> X_down (run env s as))
   \<and> ((\<forall>a\<in>set as. \<not> released ovrButton_A a) \<and> A_down s \<longrightarrow> flips debug s (trace env s as) = 0)
   \<and> ((\<forall>a\<in>set as. \<not> released ovrButton_B a) \<and> B_down s \<longrightarrow> flips track s (trace env s as) = 0)
   \<and> ((\<forall>a\<in>set as. \<not> released ovrButton_X a) \<and> X_down s \<longrightarrow> flips broken s (trace env s as) = 0)"
proof -
  note A = flips_held_once[OF render_debug]
    and B = flips_held_once[OF render_track]
    and X = flips_held_once[OF render_broken]
  note lA = run_latch[OF render_debug(2)]
    and lB = run_latch[OF render_track(2)]
    and lX = run_latch[OF render_broken(2)]
  show ?thesis
    unfolding held_buttonSeen released_buttonSeen
    by (intro conjI impI; elim conjE) (simp_all add: A B X lA lB lX)
qed

text \<open>Three calls with A, B and X held, from the initial state; then two more.\<close>

theorem C4_edge_trigger_witness:
  "flips debug initScene (trace exampleEnv initScene [heldABX, heldABX, heldABX]) = 1
   \<and> A_down (run exampleEnv initScene [heldABX, heldABX, heldABX])
   \<and> flips track initScene (trace exampleEnv initScene [heldABX, heldABX, heldABX]) = 1
   \<and> B_down (run exampleEnv initScene [heldABX, heldABX, heldABX])
   \<and> flips broken initScene (trace exampleEnv initScene [heldABX, heldABX, heldABX]) = 1
   \<and> X_down (run exampleEnv initScene [heldABX, heldABX, heldABX])
   \<and> flips debug (fst (render exampleEnv heldABX initScene))
        (trace exampleEnv (fst (render exampleEnv heldABX initScene)) [heldABX, heldABX]) = 0
   \<and> flips track (fst (render exampleEnv heldABX initScene))
        (trace exampleEnv (fst (render exampleEnv heldABX initScene)) [heldABX, heldABX]) = 0
   \<and> flips broken (fst (render exampleEnv heldABX initScene))
        (trace exampleEnv (fst (render exampleEnv heldABX initScene)) [heldABX, heldABX]) = 0"
proof -
  have ne: "[heldABX, heldABX, heldABX] \<noteq> []"
    by simp
  have hA: "\<forall>a\<in>set [heldABX, heldABX, heldABX]. held ovrButton_A a"
    and hB: "\<forall>a\<in>set [heldABX, heldABX, heldABX]. held ovrButton_B a"
    and hX: "\<forall>a\<in>set [heldABX, heldABX, heldABX]. held ovrButton_X a"
    by (simp_all add: heldABX_held)
  have up: "\<not> A_down initScene" "\<not> B_down initScene" "\<not> X_down initScene"
    by (simp_all add: initScene_def)
  have rA: "\<forall>a\<in>set [heldABX, heldABX]. \<not> released ovrButton_A a"
    and rB: "\<forall>a\<in>set [heldABX, heldABX]. \<not> released ovrButton_B a"
    and rX: "\<forall>a\<in>set [heldABX, heldABX]. \<not> released ovrButton_X a"
    by (simp_all add: released_buttonSeen heldABX_seen)
  have down: "A_down (fst (render exampleEnv heldABX initScene))"
    "B_down (fst (render exampleEnv heldABX initScene))"
    "X_down (fst (render exampleEnv heldABX initScene))"
    by (simp_all add: render_debug render_track render_broken heldABX_seen)
  show ?thesis
    using C4_edge_trigger[of "[heldABX, heldABX, heldABX]" initScene exampleEnv]
      C4_edge_trigger[of "[heldABX, heldABX]" "fst (render exampleEnv heldABX initScene)" exampleEnv]
      ne hA hB hX up rA rB rX down
    by blast
qed

subsection \<open>Claim C7\<close>

text \<open>
  C7: when both input queries of a call of \<^verbatim>\<open>render\<close> fail (the one in \<^verbatim>\<open>checkInput\<close>
  and the one for the hand trigger), \<^verbatim>\<open>boxScale\<close>, \<^verbatim>\<open>boxtransform\<close>, \<^verbatim>\<open>track\<close>, \<^verbatim>\<open>debug\<close>,
  \<^verbatim>\<open>broken\<close>, the latches of A, B and X and the flags \<^verbatim>\<open>triggerPressed\<close> keep the values
  they had, and the call still returns with all the draw calls of the frame made: ten,
  and three more when the debug flag is set.
\<close>

theorem C7_failed_query_changes_nothing:
  assumes "checkInputQuery a = None" and "triggerQuery a = None"
  shows "boxScale (fst (render env a s)) = boxScale s
    \<and> boxtransform (fst (render env a s)) = boxtransform s
    \<and> track (fst (render env a s)) = track s
    \<and> debug (fst (render env a s)) = debug s
    \<and> broken (fst (render env a s)) = broken s
    \<and> A_down (fst (render env a s)) = A_down s
    \<and> B_down (fst (render env a s)) = B_down s
    \<and> X_down (fst (render env a s)) = X_down s
    \<and> triggerPressed (fst (render env a s)) = triggerPressed s
    \<and> length (snd (render env a s)) = (if debug s then 13 else 10)"
proof -
  have ci: "checkInput (checkInputQuery a) s = s"
    by (simp add: assms checkInput_None)
  have tp: "triggerPressed (fst (render env a s)) = triggerPressed s"
    by (simp add: fst_render render_frames assms pollTrigger_None checkInput_None)
  show ?thesis
    by (simp add: render_checkInput_fields ci tp length_draws)
qed

theorem C7_failed_query_changes_nothing_witness:
  "checkInputQuery (exampleArgs None None (Vec3 0 0 0)) = None
   \<and> triggerQuery (exampleArgs None None (Vec3 0 0 0)) = None
   \<and> boxScale (fst (render exampleEnv (exampleArgs None None (Vec3 0 0 0)) initScene)) = 0.2
   \<and> track (fst (render exampleEnv (exampleArgs None None (Vec3 0 0 0)) initScene))
   \<and> length (snd (render exampleEnv (exampleArgs None None (Vec3 0 0 0)) initScene)) = 10"
proof -
  have h1: "checkInputQuery (exampleArgs None None (Vec3 0 0 0)) = None"
    and h2: "triggerQuery (exampleArgs None None (Vec3 0 0 0)) = None"
    by (simp_all add: exampleArgs_def)
  from C7_failed_query_changes_nothing[OF h1 h2, of exampleEnv initScene] h1 h2
  show ?thesis
    by (simp add: initScene_def)
qed

subsection \<open>Claim C8\<close>

text \<open>
  Setting the flag \<^verbatim>\<open>broken\<close> of a state commutes with every block of \<^verbatim>\<open>checkInput\<close> and
  every stage of \<^verbatim>\<open>render\<close>.
\<close>

lemma steps_broken_update:
  "scaleBox i (s\<lparr>broken := b\<rparr>) = (scaleBox i s)\<lparr>broken := b\<rparr>"
  "resetScale i (s\<lparr>broken := b\<rparr>) = (resetScale i s)\<lparr>broken := b\<rparr>"
  "translateBox i (s\<lparr>broken := b\<rparr>) = (translateBox i s)\<lparr>broken := b\<rparr>"
  "toggleTrack i (s\<lparr>broken := b\<rparr>) = (toggleTrack i s)\<lparr>broken := b\<rparr>"
  "toggleDebug i (s\<lparr>broken := b\<rparr>) = (toggleDebug i s)\<lparr>broken := b\<rparr>"
  by (simp_all add: scaleBox_def resetScale_def translateBox_def toggleTrack_def toggleDebug_def
      Let_def)

lemma toggleBroken_broken_update:
  "toggleBroken i (s\<lparr>broken := b\<rparr>) =
     (toggleBroken i s)\<lparr>broken := (if Buttons i AND ovrButton_X \<noteq> 0 \<and> \<not> X_down s then \<not> b else b)\<rparr>"
  by (simp add: toggleBroken_def Let_def)

lemma checkInput_broken_update:
  "checkInput q (s\<lparr>broken := b\<rparr>) = (checkInput q s)\<lparr>broken := brokenAfter q s b\<rparr>"
  by (cases q)
     (simp_all add: checkInput_def brokenAfter_def steps_broken_update toggleBroken_broken_update
       step_frames)

lemma stages_broken_update:
  "pollTrigger q (s\<lparr>broken := b\<rparr>) = (pollTrigger q s)\<lparr>broken := b\<rparr>"
  "fst (sceneView env a (s\<lparr>broken := b\<rparr>)) = (fst (sceneView env a s))\<lparr>broken := b\<rparr>"
  "snd (sceneView env a (s\<lparr>broken := b\<rparr>)) = snd (sceneView env a s)"
  "updateEyePos a (s\<lparr>broken := b\<rparr>) = (updateEyePos a s)\<lparr>broken := b\<rparr>"
  "updateFrusta env a (s\<lparr>broken := b\<rparr>) = (updateFrusta env a s)\<lparr>broken := b\<rparr>"
  by (cases q; simp add: pollTrigger_def sceneView_def updateEyePos_def updateFrusta_def Let_def
      split: ovrEyeType.split)+

lemma fst_render_broken_update:
  "fst (render env a (s\<lparr>broken := b\<rparr>)) =
     (fst (render env a s))\<lparr>broken := brokenAfter (checkInputQuery a) s b\<rparr>"
  by (simp add: fst_render checkInput_broken_update stages_broken_update)

lemma view_broken_update:
  "snd (sceneView env a (pollTrigger q (checkInput q' (s\<lparr>broken := b\<rparr>)))) =
   snd (sceneView env a (pollTrigger q (checkInput q' s)))"
  by (simp add: checkInput_broken_update stages_broken_update)

lemma draws_broken_update:
  "surfacePasses a (s\<lparr>broken := b\<rparr>) v = surfacePasses a s v"
  "wireframes a (s\<lparr>broken := b\<rparr>) = wireframes a s"
  "map (\<lambda>d. d\<lparr>uBroken := None\<rparr>) (compositor a (s\<lparr>broken := b\<rparr>))
     = map (\<lambda>d. d\<lparr>uBroken := None\<rparr>) (compositor a s)"
  by (simp_all add: surfacePasses_def surfacePass_def wireframes_def compositor_def)

lemma brokenDraws_render:
  "brokenDraws (snd (render env a s)) =
     (if eye a = ovrEye_Right \<and> broken (fst (render env a s)) then [Floor] else [])"
  by (cases "eye a")
     (simp_all add: brokenDraws_def snd_render surfacePasses_def surfacePass_def compositor_def
       wireframes_def)

text \<open>
  C8: the flag \<^verbatim>\<open>broken\<close> changes the displayed output only. Whatever its value before a
  call of \<^verbatim>\<open>render\<close>, the call leaves the same \<^verbatim>\<open>boxtransform\<close>, \<^verbatim>\<open>boxScale\<close>, \<^verbatim>\<open>eyePos\<close>,
  wall vertices and \<^verbatim>\<open>quadProjections\<close>, and makes the same draw calls up to the uniform
  \<^verbatim>\<open>broken\<close>; and that uniform is other than 0 for one draw call at most, the one of the
  floor, exactly when the eye is the right eye and the flag is set.
\<close>

theorem C8_broken_is_display_only:
  "boxtransform (fst (render env a (s\<lparr>broken := b\<rparr>))) = boxtransform (fst (render env a s))
   \<and> boxScale (fst (render env a (s\<lparr>broken := b\<rparr>))) = boxScale (fst (render env a s))
   \<and> eyePos (fst (render env a (s\<lparr>broken := b\<rparr>))) = eyePos (fst (render env a s))
   \<and> leftWallVerts (fst (render env a (s\<lparr>broken := b\<rparr>))) = leftWallVerts (fst (render env a s))
   \<and> rightWallVerts (fst (render env a (s\<lparr>broken := b\<rparr>))) = rightWallVerts (fst (render env a s))
   \<and> floorVerts (fst (render env a (s\<lparr>broken := b\<rparr>))) = floorVerts (fst (render env a s))
   \<and> quadProjections (fst (render env a (s\<lparr>broken := b\<rparr>))) = quadProjections (fst (render env a s))
   \<and> map (\<lambda>d. d\<lparr>uBroken := None\<rparr>) (snd (render env a (s\<lparr>broken := b\<rparr>)))
       = map (\<lambda>d. d\<lparr>uBroken := None\<rparr>) (snd (render env a s))
   \<and> brokenDraws (snd (render env a s)) =
       (if eye a = ovrEye_Right \<and> broken (fst (render env a s)) then [Floor] else [])"
proof -
  have draws: "map (\<lambda>d. d\<lparr>uBroken := None\<rparr>) (snd (render env a (s\<lparr>broken := b\<rparr>)))
       = map (\<lambda>d. d\<lparr>uBroken := None\<rparr>) (snd (render env a s))"
    by (simp add: snd_render fst_render_broken_update view_broken_update draws_broken_update)
  show ?thesis
    by (simp add: fst_render_broken_update draws brokenDraws_render)
qed

subsection \<open>Claim C9\<close>




subsection \<open>Claim C10\<close>

lemma untracked_trace:
  assumes "eyePos s = (\<lambda>e. Vec3 0 0 0)"
    and "\<forall>t\<in>set (trace env s as). \<not> track t"
  shows "\<forall>t\<in>set (trace env s as).
           eyePos t = (\<lambda>e. Vec3 0 0 0) \<and> quadProjections t = wallFrusta env (Vec3 0 0 0)"
  using assms
proof (induction as arbitrary: s)
  case Nil
  then show ?case by simp
next
  case (Cons a as)
  let ?t = "fst (render env a s)"
  from Cons.prems(2) have nt: "\<not> track ?t" and rest: "\<forall>t\<in>set (trace env ?t as). \<not> track t"
    by simp_all
  have e: "eyePos ?t = (\<lambda>e. Vec3 0 0 0)"
    using nt Cons.prems(1) by (simp add: render_eyePos)
  have q: "quadProjections ?t = wallFrusta env (Vec3 0 0 0)"
    by (simp add: render_quadProjections e)
  from Cons.IH[OF e rest] e q show ?case
    by simp
qed

text \<open>
  C10: \<^verbatim>\<open>eyePos[eye]\<close>, the position the frusta are computed for, is written only when the
  tracking flag is true (from the head, or from the controller when the view comes from
  it) and keeps its value in every call in which the flag is false; it starts as the
  zero vector; so when tracking is off from the first call on, all the frusta, of the
  three surfaces and of both eyes, are computed for an eye at the origin (0,0,0).
\<close>

theorem C10_eyePos_follows_tracking_only:
  "eyePos initScene = (\<lambda>e. Vec3 0 0 0)
   \<and> eyePos (fst (render env a s)) =
       (if track (fst (render env a s))
        then (eyePos s)(eye a := trackedEye a (viewFromController (fst (render env a s))))
        else eyePos s)
   \<and> quadProjections (fst (render env a s)) = wallFrusta env (eyePos (fst (render env a s)) (eye a))
   \<and> ((\<forall>t\<in>set (trace env initScene as). \<not> track t) \<longrightarrow>
       (\<forall>t\<in>set (trace env initScene as).
          eyePos t = (\<lambda>e. Vec3 0 0 0) \<and> quadProjections t = wallFrusta env (Vec3 0 0 0)))"
proof -
  have i: "eyePos initScene = (\<lambda>e. Vec3 0 0 0)"
    by (simp add: initScene_def)
  show ?thesis
    using i render_eyePos[of env a s] render_quadProjections[of env a s]
      untracked_trace[OF i, of env as]
    by blast
qed

text \<open>Button B pressed in the first call for the left eye and held in the call for the right eye.\<close>

theorem C10_eyePos_follows_tracking_only_witness:
  "\<not> track (fst (render exampleEnv pressB initScene))
   \<and> \<not> track (run exampleEnv initScene [pressB, pressB_right])
   \<and> Position (RenderPose pressB (eye pressB)) = Vec3 1 2 3
   \<and> eyePos (run exampleEnv initScene [pressB, pressB_right]) = (\<lambda>e. Vec3 0 0 0)
   \<and> quadProjections (fst (render exampleEnv pressB initScene)) = wallFrusta exampleEnv (Vec3 0 0 0)
   \<and> quadProjections (run exampleEnv initScene [pressB, pressB_right])
       = wallFrusta exampleEnv (Vec3 0 0 0)"
proof -
  have p: "Position (RenderPose pressB (eye pressB)) = Vec3 1 2 3"
    by (simp add: pressB_def exampleArgs_def examplePose_def)
  have h: "\<forall>t\<in>set (trace exampleEnv initScene [pressB, pressB_right]). \<not> track t"
    by (simp add: pressB_untracked)
  from C10_eyePos_follows_tracking_only[of exampleEnv pressB initScene "[pressB, pressB_right]"] h
  have "\<forall>t\<in>set (trace exampleEnv initScene [pressB, pressB_right]).
          eyePos t = (\<lambda>e. Vec3 0 0 0) \<and> quadProjections t = wallFrusta exampleEnv (Vec3 0 0 0)"
    by blast
  then show ?thesis
    using pressB_untracked p by simp
qed

subsection \<open>Claim C5\<close>

lemma sqrt_144_25: "sqrt (144 / 25) = 12 / 5"
  by (simp add: real_sqrt_divide)

lemma leftTransform_value:
  "leftTransform = Mat4 (Vec4 (1.2 * cos (pi / 4)) 0 (- 1.2 * sin (pi / 4)) 0) (Vec4 0 1.2 0 0)
     (Vec4 (1.2 * sin (pi / 4)) 0 (1.2 * cos (pi / 4)) 0)
     (Vec4 (- 1.2 * sin (pi / 4)) 0 (- 1.2 * cos (pi / 4)) 1)"
  by (simp add: leftTransform_def rotate_glm_def radians_def mat4_1_def Let_def)

lemma leftWall_basis:
  "screenBasis (transformVerts leftTransform (leftwall_vertices exampleEnv)) =
     Some (Vec3 (sqrt 2 / 2) 0 (- (sqrt 2 / 2)), Vec3 0 1 0, Vec3 (sqrt 2 / 2) 0 (sqrt 2 / 2))"
  by (simp add: leftTransform_value exampleEnv_def normalize_def cos_45 sin_45 sqrt_144_25)

lemma leftWall_planeDist:
  "planeDist (transformVerts leftTransform (leftwall_vertices exampleEnv)) leftWallCorner = Some 0"
proof -
  obtain p0 p1 p2 p3 where v: "transformVerts leftTransform (leftwall_vertices exampleEnv) = (p0, p1, p2, p3)"
    by (cases "transformVerts leftTransform (leftwall_vertices exampleEnv)") auto
  have p0: "p0 = leftWallCorner"
    using v by (simp add: exampleEnv_def leftWallCorner_def)
  have z: "sub3 p0 p0 = Vec3 0 0 0"
    by (cases p0) simp
  have d0: "dot vn (Vec3 0 0 0) = 0" for vn
    by (cases vn) simp
  show ?thesis
    using leftWall_basis unfolding v p0[symmetric]
    by (simp add: z d0 del: screenBasis.simps)
qed

lemma quadProjection_zero_dist:
  assumes "planeDist v e = Some 0"
  shows "quadProjection v e = None"
proof -
  obtain p0 p1 p2 p3 where v: "v = (p0, p1, p2, p3)"
    by (cases v) auto
  from assms obtain basis where sb: "screenBasis (p0, p1, p2, p3) = Some basis"
    unfolding v by (auto split: Option.bind_splits)
  have "frustumExtents (p0, p1, p2, p3) e = None"
    using assms sb unfolding v
    by (cases basis) (simp add: fdiv_def del: screenBasis.simps planeDist.simps)
  then show ?thesis
    unfolding v by (simp add: sb del: screenBasis.simps frustumExtents.simps)
qed

lemma headAtCorner_eye:
  "eyePos (fst (render exampleEnv headAtCorner initScene)) ovrEye_Left = leftWallCorner"
proof -
  have t: "track (fst (render exampleEnv headAtCorner initScene))"
    by (simp add: render_track buttonSeen_def headAtCorner_def exampleArgs_def initScene_def)
  have v: "\<not> viewFromController (fst (render exampleEnv headAtCorner initScene))"
    by (simp add: fst_render render_frames pollTrigger_None checkInput_frame
        headAtCorner_def exampleArgs_def initScene_def)
  show ?thesis
    by (simp add: render_eyePos t v trackedEye_def)
       (simp add: headAtCorner_def exampleArgs_def examplePose_def)
qed

text \<open>
  C5 says that the computation of the frustum guards \<^verbatim>\<open>dist > 0\<close>: with \<^verbatim>\<open>dist\<close> zero it
  would clamp the distance, skip the pass or reject with an error rather than divide.
  The program has no such guard. With the head at a corner of the left wall,
  \<^verbatim>\<open>dist\<close> is 0 for that wall; the call replaces the matrix of the wall, the identity
  before, by the non-finite result of the divisions, and draws the two meshes of the
  pass of that wall with it.
\<close>

theorem C5_pass_drawn_at_zero_distance:
  "planeDist (transformVerts leftTransform (leftwall_vertices exampleEnv)) leftWallCorner = Some 0
   \<and> eyePos (fst (render exampleEnv headAtCorner initScene)) (eye headAtCorner) = leftWallCorner
   \<and> quadProjections initScene ! 0 = Some mat4_1
   \<and> quadProjections (fst (render exampleEnv headAtCorner initScene)) ! 0 = None
   \<and> take 2 (passProjections (snd (render exampleEnv headAtCorner initScene))) = [None, None]"
proof -
  have e: "eye headAtCorner = ovrEye_Left"
    by (simp add: headAtCorner_def exampleArgs_def)
  have q: "quadProjections (fst (render exampleEnv headAtCorner initScene)) ! 0 = None"
    by (simp add: render_quadProjections wallFrusta_def e headAtCorner_eye
        quadProjection_zero_dist[OF leftWall_planeDist])
  show ?thesis
    by (simp add: leftWall_planeDist e headAtCorner_eye q render_passProjections)
       (simp add: initScene_def)
qed

text \<open>
  C5, amended: the computation of the frustum does not guard \<^verbatim>\<open>dist\<close>. Whenever
  \<^verbatim>\<open>dist\<close> is 0 the divisions by it are made and the matrix is not finite; every call of
  \<^verbatim>\<open>render\<close> stores the three matrices computed for the stored eye position, whatever
  they are, and draws every surface pass with them.
\<close>

theorem C5_division_is_not_guarded:
  "(planeDist v e = Some 0 \<longrightarrow> quadProjection v e = None)
   \<and> quadProjections (fst (render env a s)) = wallFrusta env (eyePos (fst (render env a s)) (eye a))
   \<and> passProjections (snd (render env a s)) =
       [quadProjections (fst (render env a s)) ! 0, quadProjections (fst (render env a s)) ! 0,
        quadProjections (fst (render env a s)) ! 1, quadProjections (fst (render env a s)) ! 1,
        quadProjections (fst (render env a s)) ! 2, quadProjections (fst (render env a s)) ! 2]"
  using quadProjection_zero_dist[of v e] render_quadProjections[of env a s]
    render_passProjections[of env a s]
  by blast

theorem C5_division_is_not_guarded_witness:
  "planeDist unitQuad (Vec3 0 0 0) = Some 0 \<and> quadProjection unitQuad (Vec3 0 0 0) = None"
proof -
  have h: "planeDist unitQuad (Vec3 0 0 0) = Some 0"
    by (simp add: unitQuad_def normalize_def)
  with C5_division_is_not_guarded[of unitQuad "Vec3 0 0 0"] show ?thesis
    by blast
qed

section \<open>Properties of the loading of the textures\<close>

text \<open>The reader on the small test file, and on an empty file.\<close>

lemma loadPPM_opened_tinyPPM: "loadPPM_opened tinyPPM = Some (Some ''abcdef'', 2, 1)"
  by (simp add: loadPPM_opened_def tinyPPM_def fgets_def sscanf_s_s_def cstring_def isspace_def
      atoi_def isdigit_def inInt_def imul_def Let_def)

lemma loadPPM_opened_empty: "loadPPM_opened [] = None"
  by (simp add: loadPPM_opened_def fgets_def)

subsection \<open>Claim C6\<close>

lemma loadPPM_not_found: "fs filename = None \<Longrightarrow> loadPPM fs filename = Some (None, 0, 0)"
  by (simp add: loadPPM_def)

lemma load_uploads: "load fs f st = Some (d, st1) \<Longrightarrow> uploads st1 = uploads st"
  by (auto simp: load_def split: Option.bind_splits)

lemma loadFaces_uploads: "loadFaces fs files st = Some (ds, st1) \<Longrightarrow> uploads st1 = uploads st"
proof (induction files arbitrary: st ds st1)
  case Nil
  then show ?case by simp
next
  case (Cons f files)
  then show ?case
    by (auto split: Option.bind_splits dest!: load_uploads)
qed

lemma loadSkybox_uploads:
  "loadSkybox fs obj files st = Some st1 \<Longrightarrow> length (uploads st1) = Suc (length (uploads st))"
  by (auto simp: loadSkybox_def split: Option.bind_splits dest!: loadFaces_uploads)

lemma loadWall_uploads:
  "loadWall fs obj name st = Some st1 \<Longrightarrow> length (uploads st1) = Suc (length (uploads st))"
  by (auto simp: loadWall_def split: Option.bind_splits dest!: load_uploads)

lemma loadCube_uploads:
  "loadCube fs st = Some st1 \<Longrightarrow> length (uploads st1) = Suc (length (uploads st))"
  by (auto simp: loadCube_def split: Option.bind_splits dest!: load_uploads)

lemma loadTextures_uploads:
  assumes "loadTextures fs st = Some st'"
  shows "length (uploads st') = length (uploads st) + 10"
proof -
  from assms obtain st1 st2 st3 st4 st5 st6 st7 st8 st9 where
    "loadCube fs st = Some st1"
    "loadSkybox fs Obj_skybox
         [''../Project3-Assets/left-ppm/px.ppm'', ''../Project3-Assets/left-ppm/nx.ppm'',
          ''../Project3-Assets/left-ppm/py.ppm'', ''../Project3-Assets/left-ppm/ny.ppm'',
          ''../Project3-Assets/left-ppm/pz.ppm'', ''../Project3-Assets/left-ppm/nz.ppm''] st1 = Some st2"
    "loadSkybox fs Obj_skybox
         [''../Project3-Assets/right-ppm/px.ppm'', ''../Project3-Assets/right-ppm/nx.ppm'',
          ''../Project3-Assets/right-ppm/py.ppm'', ''../Project3-Assets/right-ppm/ny.ppm'',
          ''../Project3-Assets/right-ppm/pz.ppm'', ''../Project3-Assets/right-ppm/nz.ppm''] st2 = Some st3"
    "loadSkybox fs Obj_biggerSkyBox
         [''../Project3-Assets/bsk/SunSetLeft2048.ppm'', ''../Project3-Assets/bsk/SunSetRight2048.ppm'',
          ''../Project3-Assets/bsk/SunSetUp2048.ppm'', ''../Project3-Assets/bsk/SunSetDown2048.ppm'',
          ''../Project3-Assets/bsk/SunSetFront2048.ppm'', ''../Project3-Assets/bsk/SunSetBack2048.ppm''] st3
       = Some st4"
    "loadWall fs Obj_leftwall ''../Project3-Assets/left-ppm/nx.ppm'' st4 = Some st5"
    "loadWall fs Obj_leftwall ''../Project3-Assets/right-ppm/nx.ppm'' st5 = Some st6"
    "loadWall fs Obj_rightwall ''../Project3-Assets/left-ppm/pz.ppm'' st6 = Some st7"
    "loadWall fs Obj_rightwall ''../Project3-Assets/right-ppm/pz.ppm'' st7 = Some st8"
    "loadWall fs Obj_floor ''../Project3-Assets/left-ppm/ny.ppm'' st8 = Some st9"
    "loadWall fs Obj_floor ''../Project3-Assets/right-ppm/ny.ppm'' st9 = Some st'"
    unfolding loadTextures_def by (auto split: Option.bind_splits)
  then show ?thesis
    by (auto dest!: loadCube_uploads loadSkybox_uploads loadWall_uploads)
qed

lemma load_noFiles: "load noFiles f st = Some (None, st\<lparr>imgWidth := 0, imgHeight := 0\<rparr>)"
  by (simp add: load_def loadPPM_def noFiles_def)

lemma loadTextures_noFiles:
  "loadTextures noFiles noImages =
     Some \<lparr> imgData = None, imgWidth = 0, imgHeight = 0, uploads = nullUploads \<rparr>"
  by (simp add: loadTextures_def loadWall_def loadSkybox_def loadCube_def load_noFiles
      noImages_def nullUploads_def numeral_eq_Suc)

text \<open>
  C6 says that \<^verbatim>\<open>loadPPM\<close> returns a null pointer with width and height 0 when the file
  does not open, and that the constructor detects this for each texture and aborts. The
  first half holds. The constructor makes no such check: when none of the files opens,
  it still goes through all ten uploads, each with null data and the size 0.
\<close>

theorem C6_null_images_are_uploaded:
  "loadPPM noFiles ''../Project3-Assets/vr_test_pattern.ppm'' = Some (None, 0, 0)
   \<and> loadTextures noFiles noImages =
       Some \<lparr> imgData = None, imgWidth = 0, imgHeight = 0, uploads = nullUploads \<rparr>"
  by (simp add: loadTextures_noFiles) (simp add: loadPPM_def noFiles_def)

text \<open>
  C6, amended: when a texture file does not open, \<^verbatim>\<open>loadPPM\<close> returns the null pointer and
  leaves 0 in \<^verbatim>\<open>width\<close> and \<^verbatim>\<open>height\<close>; the constructor does not look at the result:
  whenever its loading returns it has made all ten texture uploads, and with no file
  that opens it hands null data and the size 0 to each of them.
\<close>

theorem C6_constructor_does_not_check:
  "(fs filename = None \<longrightarrow> loadPPM fs filename = Some (None, 0, 0))
   \<and> (loadTextures fs st = Some st' \<longrightarrow> length (uploads st') = length (uploads st) + 10)
   \<and> loadTextures noFiles noImages =
       Some \<lparr> imgData = None, imgWidth = 0, imgHeight = 0, uploads = nullUploads \<rparr>"
  using loadPPM_not_found[of fs filename] loadTextures_uploads[of fs st st'] loadTextures_noFiles
  by blast

theorem C6_constructor_does_not_check_witness:
  "noFiles ''../Project3-Assets/vr_test_pattern.ppm'' = None
   \<and> loadPPM noFiles ''../Project3-Assets/vr_test_pattern.ppm'' = Some (None, 0, 0)
   \<and> loadTextures noFiles noImages =
       Some \<lparr> imgData = None, imgWidth = 0, imgHeight = 0, uploads = nullUploads \<rparr>
   \<and> length nullUploads = length (uploads noImages) + 10"
proof -
  have h: "noFiles ''../Project3-Assets/vr_test_pattern.ppm'' = None"
    by (simp add: noFiles_def)
  from C6_constructor_does_not_check[of noFiles "''../Project3-Assets/vr_test_pattern.ppm''"
      noImages "\<lparr> imgData = None, imgWidth = 0, imgHeight = 0, uploads = nullUploads \<rparr>"] h
  show ?thesis
    by simp
qed

end
